theory Spec2Isabelle
  imports Main "HOL-Library.Sublist"
begin

section \<open>The logs package: a logger fanning messages out to adapters\<close>

text \<open>
  A shallow embedding of \<^verbatim>\<open>src/vendor/logs/log.go\<close>. The logger struct is a record,
  its methods are functions that take the logger and the rest of the machine and return
  both updated. Everything the package calls but does not define is made explicit:
  \<^item> an adapter (the interface \<^verbatim>\<open>XLoggerInterface\<close>) is a record of four functions over
    a state \<open>'w\<close>, the memory of all adapters together, so that adapters may keep state,
    share it, and fail depending on it;
  \<^item> every call of an adapter method is appended to \<open>calls\<close>, every line of
    \<^verbatim>\<open>fmt.Println\<close> to \<open>stdout\<close>, and every call of \<^verbatim>\<open>fmt.Sprintf\<close> is counted;
  \<^item> \<^verbatim>\<open>fmt.Sprintf\<close> on the caller's format and \<^verbatim>\<open>runtime.Caller\<close> are parameters
    (the record \<open>env\<close>);
  \<^item> the order of a \<^verbatim>\<open>range\<close> over a Go map is not fixed by the language, so each
    function that ranges over \<^verbatim>\<open>bl.outputs\<close> takes the order of the keys it visits
    as an argument, and the theorems hold for every order (\<open>range_order\<close>);
  \<^item> a send on a full channel and a receive on an empty one block: a call that blocks
    returns \<open>None\<close>, for it does not return until another goroutine moves;
  \<^item> the dispatcher goroutine that \<^verbatim>\<open>Async\<close> starts, and \<^verbatim>\<open>Close\<close> running beside
    it, are interleaved step by step under a schedule (\<open>run\<close>).
  The mutex \<^verbatim>\<open>bl.lock\<close> is left out: one call runs at a time here, and every method
  that takes the lock releases it before it returns. Go's \<^verbatim>\<open>int\<close> is \<open>int\<close>: the
  package compares and stores these numbers and never computes with them.
\<close>

subsection \<open>Levels\<close>

definition LevelEmergency :: int where "LevelEmergency = 0"
definition LevelAlert :: int where "LevelAlert = 1"
definition LevelCritical :: int where "LevelCritical = 2"
definition LevelError :: int where "LevelError = 3"
definition LevelWarning :: int where "LevelWarning = 4"
definition LevelNotice :: int where "LevelNotice = 5"
definition LevelInformational :: int where "LevelInformational = 6"
definition LevelDebug :: int where "LevelDebug = 7"

definition LevelInfo :: int where "LevelInfo = LevelInformational"
definition LevelTrace :: int where "LevelTrace = LevelDebug"
definition LevelWarn :: int where "LevelWarn = LevelWarning"

subsection \<open>Data\<close>

text \<open>
  A Go \<^verbatim>\<open>error\<close> of this package: the error an adapter returned, known by the text of
  its \<^verbatim>\<open>Error()\<close>, or the value of a \<^verbatim>\<open>fmt.Errorf(format, args...)\<close>, kept unexpanded.
\<close>

datatype error = AdapterError string | Errorf string "string list"

datatype panic = Panic string

record 'w XLoggerInterface =
  Init :: "string \<Rightarrow> 'w \<Rightarrow> string option \<times> 'w"
  WriteMsg :: "string \<Rightarrow> int \<Rightarrow> 'w \<Rightarrow> string option \<times> 'w"
  Destroy :: "'w \<Rightarrow> 'w"
  Flush :: "'w \<Rightarrow> 'w"

text \<open>\<^verbatim>\<open>type loggerType func() XLoggerInterface\<close>: a constructor may allocate.\<close>

type_synonym 'w loggerType = "'w \<Rightarrow> 'w XLoggerInterface \<times> 'w"

record logMsg =
  level :: int
  msg :: string

text \<open>A buffered channel of \<^verbatim>\<open>*logMsg\<close>: its queue, oldest first, and its capacity.\<close>

record chan =
  buf :: "logMsg list"
  cap :: nat

definition send :: "chan \<Rightarrow> logMsg \<Rightarrow> chan option" where
  "send c lm = (if length (buf c) < cap c then Some (c\<lparr>buf := buf c @ [lm]\<rparr>) else None)"

definition recv :: "chan \<Rightarrow> (logMsg \<times> chan) option" where
  "recv c = (case buf c of [] \<Rightarrow> None | lm # rest \<Rightarrow> Some (lm, c\<lparr>buf := rest\<rparr>))"

record 'w XLogger =
  level :: int
  enableFuncCallDepth :: bool
  loggerFuncCallDepth :: int
  asynchronous :: bool
  msg :: chan
  outputs :: "string \<rightharpoonup> 'w XLoggerInterface"
  extra :: string

datatype call =
  CInit string string
| CWriteMsg string string int
| CFlush string
| CDestroy string

text \<open>
  The machine outside the logger: the adapters' memory, the adapter methods called so
  far (each with the name the adapter has in \<^verbatim>\<open>bl.outputs\<close>), the lines printed by
  \<^verbatim>\<open>fmt.Println\<close>, and the number of \<^verbatim>\<open>fmt.Sprintf\<close> calls made.
\<close>

record 'w sys =
  world :: 'w
  calls :: "call list"
  stdout :: "string list"
  sprintfs :: nat

record 'v env =
  Sprintf :: "string \<Rightarrow> 'v list \<Rightarrow> string"
  Caller :: "int \<Rightarrow> string \<times> int \<times> bool"

text \<open>
  A \<^verbatim>\<open>range\<close> over a map visits every key once, in an order the language leaves open.
  The loops below are total in the list of keys: a key that is not in the map is passed
  over, which \<open>range_order\<close> excludes.
\<close>

definition range_order :: "(string \<rightharpoonup> 'a) \<Rightarrow> string list \<Rightarrow> bool" where
  "range_order m ks \<longleftrightarrow> distinct ks \<and> set ks = dom m"

subsection \<open>Library functions the package calls\<close>

text \<open>\<^verbatim>\<open>fmt.Println(a, b, ...)\<close>: the operands separated by spaces, as one line.\<close>

fun spaced :: "string list \<Rightarrow> string" where
  "spaced [] = []"
| "spaced [a] = a"
| "spaced (a # b # r) = a @ '' '' @ spaced (b # r)"

definition Println :: "string list \<Rightarrow> 'w sys \<Rightarrow> 'w sys" where
  "Println ops s = s\<lparr>stdout := stdout s @ [spaced ops]\<rparr>"

text \<open>The verb \<^verbatim>\<open>%d\<close> on an int: its decimal digits, with a minus sign if negative.\<close>

function digits :: "nat \<Rightarrow> string" where
  "digits n = (if n < 10 then [''0123456789'' ! n] else digits (n div 10) @ [''0123456789'' ! (n mod 10)])"
  by pat_completeness auto
termination
  by (relation "measure id") auto

definition Itoa :: "int \<Rightarrow> string" where
  "Itoa i = (if i < 0 then CHR ''-'' # digits (nat (- i)) else digits (nat i))"

text \<open>
  \<^verbatim>\<open>path.Split\<close> cuts a path after its last slash; with no slash the directory is
  empty and the file is the whole path.
\<close>

definition path_Split :: "string \<Rightarrow> string \<times> string" where
  "path_Split p =
     (let file = rev (takeWhile (\<lambda>c. c \<noteq> CHR ''/'') (rev p))
      in (take (length p - length file) p, file))"

subsection \<open>The registry\<close>

text \<open>
  The package variable \<^verbatim>\<open>adapters\<close> is passed in and returned. A nil constructor is
  \<open>None\<close>.
\<close>

definition Register ::
  "(string \<rightharpoonup> 'w loggerType) \<Rightarrow> string \<Rightarrow> 'w loggerType option
     \<Rightarrow> panic + (string \<rightharpoonup> 'w loggerType)" where
  "Register adapters name log =
     (case log of
        None \<Rightarrow> Inl (Panic ''logs: Register provide is nil'')
      | Some f \<Rightarrow>
          (case adapters name of
             Some dup \<Rightarrow> Inl (Panic (''logs: Register called twice for provider '' @ name))
           | None \<Rightarrow> Inr (adapters(name \<mapsto> f))))"

subsection \<open>The logger: construction and settings\<close>

text \<open>
  \<^verbatim>\<open>make(chan *logMsg, channellen)\<close> panics on a negative size and on a size the
  runtime cannot allocate; \<open>maxchan\<close> is the largest size it can, which depends on the
  platform.
\<close>

definition NewXLogger :: "int \<Rightarrow> int \<Rightarrow> panic + 'w XLogger" where
  "NewXLogger maxchan channellen =
     (if channellen < 0 \<or> channellen > maxchan then Inl (Panic ''makechan: size out of range'')
      else Inr \<lparr>level = LevelDebug, enableFuncCallDepth = False, loggerFuncCallDepth = 2,
                asynchronous = False, msg = \<lparr>buf = [], cap = nat channellen\<rparr>,
                outputs = Map.empty, extra = []\<rparr>)"

text \<open>
  Line 119 of \<^verbatim>\<open>Async\<close>. Line 120 starts a goroutine that runs \<^verbatim>\<open>startXLogger\<close>:
  that is \<open>Async_go\<close>, in the subsection on goroutines below.
\<close>

definition Async :: "'w XLogger \<Rightarrow> 'w XLogger" where
  "Async bl = bl\<lparr>asynchronous := True\<rparr>"


definition SetExtra :: "string \<Rightarrow> 'w XLogger \<Rightarrow> 'w XLogger" where
  "SetExtra e bl = bl\<lparr>extra := e\<rparr>"

definition SetLogFuncCallDepth :: "int \<Rightarrow> 'w XLogger \<Rightarrow> 'w XLogger" where
  "SetLogFuncCallDepth d bl = bl\<lparr>loggerFuncCallDepth := d\<rparr>"

definition GetLogFuncCallDepth :: "'w XLogger \<Rightarrow> int" where
  "GetLogFuncCallDepth bl = loggerFuncCallDepth bl"

definition EnableFuncCallDepth :: "bool \<Rightarrow> 'w XLogger \<Rightarrow> 'w XLogger" where
  "EnableFuncCallDepth b bl = bl\<lparr>enableFuncCallDepth := b\<rparr>"

definition SetXLogger ::
  "(string \<rightharpoonup> 'w loggerType) \<Rightarrow> 'w XLogger \<Rightarrow> 'w sys \<Rightarrow> string \<Rightarrow> string
     \<Rightarrow> error option \<times> 'w XLogger \<times> 'w sys" where
  "SetXLogger adapters bl s adaptername config =
     (case adapters adaptername of
        Some log \<Rightarrow>
          (let (lg, w1) = log (world s);
               (err, w2) = Init lg config w1;
               s1 = s\<lparr>world := w2, calls := calls s @ [CInit adaptername config]\<rparr>;
               bl1 = bl\<lparr>outputs := (outputs bl)(adaptername \<mapsto> lg)\<rparr>
           in case err of
                Some e \<Rightarrow>
                  (Some (AdapterError e), bl1, Println [''logs.XLogger.SetXLogger: '' @ e] s1)
              | None \<Rightarrow> (None, bl1, s1))
      | None \<Rightarrow>
          (Some (Errorf ''logs: unknown adaptername %q (forgotten Register?)'' [adaptername]),
           bl, s))"

definition DelXLogger ::
  "'w XLogger \<Rightarrow> 'w sys \<Rightarrow> string \<Rightarrow> error option \<times> 'w XLogger \<times> 'w sys" where
  "DelXLogger bl s adaptername =
     (case outputs bl adaptername of
        Some lg \<Rightarrow>
          (None, bl\<lparr>outputs := (outputs bl)(adaptername := None)\<rparr>,
           s\<lparr>world := Destroy lg (world s), calls := calls s @ [CDestroy adaptername]\<rparr>)
      | None \<Rightarrow>
          (Some (Errorf ''logs: unknown adaptername %q (forgotten Register?)'' [adaptername]),
           bl, s))"

subsection \<open>The message path\<close>

text \<open>
  Lines 157 to 169 of \<^verbatim>\<open>writerMsg\<close>: the text of the record. A frame that
  \<^verbatim>\<open>runtime.Caller\<close> cannot resolve is shown as \<^verbatim>\<open>???\<close>, line 0.
\<close>

definition writerMsg_text :: "'v env \<Rightarrow> 'w XLogger \<Rightarrow> string \<Rightarrow> string" where
  "writerMsg_text env bl m =
     (if enableFuncCallDepth bl then
        (let (file0, line0, ok) = Caller env (loggerFuncCallDepth bl);
             (file, line) = (if \<not> ok then (''???'', 0) else (file0, line0));
             (dir, filename) = path_Split file
         in ''['' @ extra bl @ '':'' @ filename @ '':'' @ Itoa line @ ''] '' @ m)
      else ''['' @ extra bl @ ''] '' @ m)"

text \<open>
  The synchronous loop of \<^verbatim>\<open>writerMsg\<close> (lines 173 to 181) over the keys \<open>ks\<close>:
  the first failing write is printed and returned, and the loop ends there.
\<close>

fun writerMsg_range ::
  "'w XLogger \<Rightarrow> string list \<Rightarrow> logMsg \<Rightarrow> 'w sys \<Rightarrow> error option \<times> 'w sys" where
  "writerMsg_range bl [] lm s = (None, s)"
| "writerMsg_range bl (name # ks) lm s =
     (case outputs bl name of
        None \<Rightarrow> writerMsg_range bl ks lm s
      | Some l \<Rightarrow>
          (let (err, w1) = WriteMsg l (logMsg.msg lm) (logMsg.level lm) (world s);
               s1 = s\<lparr>world := w1,
                      calls := calls s @ [CWriteMsg name (logMsg.msg lm) (logMsg.level lm)]\<rparr>
           in case err of
                Some e \<Rightarrow>
                  (Some (AdapterError e), Println [''unable to WriteMsg to adapter:'', name, e] s1)
              | None \<Rightarrow> writerMsg_range bl ks lm s1))"

definition writerMsg ::
  "'v env \<Rightarrow> string list \<Rightarrow> 'w XLogger \<Rightarrow> 'w sys \<Rightarrow> int \<Rightarrow> string
     \<Rightarrow> (error option \<times> 'w XLogger \<times> 'w sys) option" where
  "writerMsg env ks bl s loglevel m =
     (let lm = \<lparr>logMsg.level = loglevel, logMsg.msg = writerMsg_text env bl m\<rparr>;
          s1 = s\<lparr>sprintfs := sprintfs s + 1\<rparr>
      in if asynchronous bl then
           (case send (msg bl) lm of
              None \<Rightarrow> None
            | Some c \<Rightarrow> Some (None, bl\<lparr>msg := c\<rparr>, s1))
         else
           (let (err, s2) = writerMsg_range bl ks lm s1 in Some (err, bl, s2)))"

text \<open>
  The dispatcher. The inner loop of \<^verbatim>\<open>startXLogger\<close> (lines 218 to 223) prints a
  failing write and goes on; one round of the outer loop receives a record, or blocks.
\<close>

fun startXLogger_range ::
  "'w XLogger \<Rightarrow> string list \<Rightarrow> logMsg \<Rightarrow> 'w sys \<Rightarrow> 'w sys" where
  "startXLogger_range bl [] bm s = s"
| "startXLogger_range bl (name # ks) bm s =
     (case outputs bl name of
        None \<Rightarrow> startXLogger_range bl ks bm s
      | Some l \<Rightarrow>
          (let (err, w1) = WriteMsg l (logMsg.msg bm) (logMsg.level bm) (world s);
               s1 = s\<lparr>world := w1,
                      calls := calls s @ [CWriteMsg name (logMsg.msg bm) (logMsg.level bm)]\<rparr>
           in case err of
                Some e \<Rightarrow>
                  startXLogger_range bl ks bm (Println [''ERROR, unable to WriteMsg:'', e] s1)
              | None \<Rightarrow> startXLogger_range bl ks bm s1))"

definition startXLogger_iter ::
  "string list \<Rightarrow> 'w XLogger \<Rightarrow> 'w sys \<Rightarrow> ('w XLogger \<times> 'w sys) option" where
  "startXLogger_iter ks bl s =
     (case recv (msg bl) of
        None \<Rightarrow> None
      | Some (bm, c) \<Rightarrow> Some (bl\<lparr>msg := c\<rparr>, startXLogger_range bl ks bm s))"

text \<open>
  The public methods return nothing: the value of \<^verbatim>\<open>bl.writerMsg(...)\<close> is dropped.
\<close>

definition discard ::
  "(error option \<times> 'w XLogger \<times> 'w sys) option \<Rightarrow> (unit \<times> 'w XLogger \<times> 'w sys) option" where
  "discard r = map_option (\<lambda>(err, bl, s). ((), bl, s)) r"

definition Emergency ::
  "'v env \<Rightarrow> string list \<Rightarrow> 'w XLogger \<Rightarrow> 'w sys \<Rightarrow> string \<Rightarrow> 'v list
     \<Rightarrow> (unit \<times> 'w XLogger \<times> 'w sys) option" where
  "Emergency env ks bl s format v =
     (if LevelEmergency > level bl then Some ((), bl, s)
      else (let m = Sprintf env (''[M] '' @ format) v
            in discard (writerMsg env ks bl (s\<lparr>sprintfs := sprintfs s + 1\<rparr>) LevelEmergency m)))"

definition Alert ::
  "'v env \<Rightarrow> string list \<Rightarrow> 'w XLogger \<Rightarrow> 'w sys \<Rightarrow> string \<Rightarrow> 'v list
     \<Rightarrow> (unit \<times> 'w XLogger \<times> 'w sys) option" where
  "Alert env ks bl s format v =
     (if LevelAlert > level bl then Some ((), bl, s)
      else (let m = Sprintf env (''[A] '' @ format) v
            in discard (writerMsg env ks bl (s\<lparr>sprintfs := sprintfs s + 1\<rparr>) LevelAlert m)))"

definition Critical ::
  "'v env \<Rightarrow> string list \<Rightarrow> 'w XLogger \<Rightarrow> 'w sys \<Rightarrow> string \<Rightarrow> 'v list
     \<Rightarrow> (unit \<times> 'w XLogger \<times> 'w sys) option" where
  "Critical env ks bl s format v =
     (if LevelCritical > level bl then Some ((), bl, s)
      else (let m = Sprintf env (''[C] '' @ format) v
            in discard (writerMsg env ks bl (s\<lparr>sprintfs := sprintfs s + 1\<rparr>) LevelCritical m)))"

definition Error ::
  "'v env \<Rightarrow> string list \<Rightarrow> 'w XLogger \<Rightarrow> 'w sys \<Rightarrow> string \<Rightarrow> 'v list
     \<Rightarrow> (unit \<times> 'w XLogger \<times> 'w sys) option" where
  "Error env ks bl s format v =
     (if LevelError > level bl then Some ((), bl, s)
      else (let m = Sprintf env (''[E] '' @ format) v
            in discard (writerMsg env ks bl (s\<lparr>sprintfs := sprintfs s + 1\<rparr>) LevelError m)))"

definition Warning ::
  "'v env \<Rightarrow> string list \<Rightarrow> 'w XLogger \<Rightarrow> 'w sys \<Rightarrow> string \<Rightarrow> 'v list
     \<Rightarrow> (unit \<times> 'w XLogger \<times> 'w sys) option" where
  "Warning env ks bl s format v =
     (if LevelWarning > level bl then Some ((), bl, s)
      else (let m = Sprintf env (''[W] '' @ format) v
            in discard (writerMsg env ks bl (s\<lparr>sprintfs := sprintfs s + 1\<rparr>) LevelWarning m)))"

definition Notice ::
  "'v env \<Rightarrow> string list \<Rightarrow> 'w XLogger \<Rightarrow> 'w sys \<Rightarrow> string \<Rightarrow> 'v list
     \<Rightarrow> (unit \<times> 'w XLogger \<times> 'w sys) option" where
  "Notice env ks bl s format v =
     (if LevelNotice > level bl then Some ((), bl, s)
      else (let m = Sprintf env (''[N] '' @ format) v
            in discard (writerMsg env ks bl (s\<lparr>sprintfs := sprintfs s + 1\<rparr>) LevelNotice m)))"

definition Informational ::
  "'v env \<Rightarrow> string list \<Rightarrow> 'w XLogger \<Rightarrow> 'w sys \<Rightarrow> string \<Rightarrow> 'v list
     \<Rightarrow> (unit \<times> 'w XLogger \<times> 'w sys) option" where
  "Informational env ks bl s format v =
     (if LevelInformational > level bl then Some ((), bl, s)
      else (let m = Sprintf env (''[I] '' @ format) v
            in discard
                 (writerMsg env ks bl (s\<lparr>sprintfs := sprintfs s + 1\<rparr>) LevelInformational m)))"

definition Debug ::
  "'v env \<Rightarrow> string list \<Rightarrow> 'w XLogger \<Rightarrow> 'w sys \<Rightarrow> string \<Rightarrow> 'v list
     \<Rightarrow> (unit \<times> 'w XLogger \<times> 'w sys) option" where
  "Debug env ks bl s format v =
     (if LevelDebug > level bl then Some ((), bl, s)
      else (let m = Sprintf env (''[D] '' @ format) v
            in discard (writerMsg env ks bl (s\<lparr>sprintfs := sprintfs s + 1\<rparr>) LevelDebug m)))"

definition Warn ::
  "'v env \<Rightarrow> string list \<Rightarrow> 'w XLogger \<Rightarrow> 'w sys \<Rightarrow> string \<Rightarrow> 'v list
     \<Rightarrow> (unit \<times> 'w XLogger \<times> 'w sys) option" where
  "Warn env ks bl s format v =
     (if LevelWarning > level bl then Some ((), bl, s)
      else (let m = Sprintf env (''[W] '' @ format) v
            in discard (writerMsg env ks bl (s\<lparr>sprintfs := sprintfs s + 1\<rparr>) LevelWarning m)))"

definition Info ::
  "'v env \<Rightarrow> string list \<Rightarrow> 'w XLogger \<Rightarrow> 'w sys \<Rightarrow> string \<Rightarrow> 'v list
     \<Rightarrow> (unit \<times> 'w XLogger \<times> 'w sys) option" where
  "Info env ks bl s format v =
     (if LevelInformational > level bl then Some ((), bl, s)
      else (let m = Sprintf env (''[I] '' @ format) v
            in discard
                 (writerMsg env ks bl (s\<lparr>sprintfs := sprintfs s + 1\<rparr>) LevelInformational m)))"

definition Trace ::
  "'v env \<Rightarrow> string list \<Rightarrow> 'w XLogger \<Rightarrow> 'w sys \<Rightarrow> string \<Rightarrow> 'v list
     \<Rightarrow> (unit \<times> 'w XLogger \<times> 'w sys) option" where
  "Trace env ks bl s format v =
     (if LevelDebug > level bl then Some ((), bl, s)
      else (let m = Sprintf env (''[D] '' @ format) v
            in discard (writerMsg env ks bl (s\<lparr>sprintfs := sprintfs s + 1\<rparr>) LevelDebug m)))"

subsection \<open>Shutdown\<close>

text \<open>The inner loop of \<^verbatim>\<open>Close\<close> (lines 342 to 347).\<close>

fun Close_range ::
  "'w XLogger \<Rightarrow> string list \<Rightarrow> logMsg \<Rightarrow> 'w sys \<Rightarrow> 'w sys" where
  "Close_range bl [] bm s = s"
| "Close_range bl (name # ks) bm s =
     (case outputs bl name of
        None \<Rightarrow> Close_range bl ks bm s
      | Some l \<Rightarrow>
          (let (err, w1) = WriteMsg l (logMsg.msg bm) (logMsg.level bm) (world s);
               s1 = s\<lparr>world := w1,
                      calls := calls s @ [CWriteMsg name (logMsg.msg bm) (logMsg.level bm)]\<rparr>
           in case err of
                Some e \<Rightarrow>
                  Close_range bl ks bm
                    (Println [''ERROR, unable to WriteMsg (while closing logger):'', e] s1)
              | None \<Rightarrow> Close_range bl ks bm s1))"

text \<open>
  The outer loop (lines 339 to 351) when no other goroutine receives from the channel,
  so that the test and the receive see the same queue. Its \<open>i\<close>-th round ranges over the
  adapters in the order \<open>ords i\<close>. With a dispatcher running the loop is the steps of
  \<open>Close_step\<close> below.
\<close>

function Close_drain ::
  "(nat \<Rightarrow> string list) \<Rightarrow> 'w XLogger \<Rightarrow> 'w sys \<Rightarrow> ('w XLogger \<times> 'w sys) option" where
  "Close_drain ords bl s =
     (if length (buf (msg bl)) > 0 then
        (case recv (msg bl) of
           None \<Rightarrow> None
         | Some (bm, c) \<Rightarrow>
             Close_drain (\<lambda>i. ords (Suc i)) (bl\<lparr>msg := c\<rparr>) (Close_range bl (ords 0) bm s))
      else Some (bl, s))"
  by pat_completeness auto
termination
  by (relation "measure (\<lambda>(ords, bl, s). length (buf (msg bl)))")
     (auto simp: recv_def split: list.splits)

text \<open>The last loop (lines 352 to 355): flush, then destroy, adapter by adapter.\<close>

fun Close_final :: "'w XLogger \<Rightarrow> string list \<Rightarrow> 'w sys \<Rightarrow> 'w sys" where
  "Close_final bl [] s = s"
| "Close_final bl (name # ks) s =
     (case outputs bl name of
        None \<Rightarrow> Close_final bl ks s
      | Some l \<Rightarrow>
          Close_final bl ks
            (s\<lparr>world := Destroy l (Flush l (world s)),
               calls := calls s @ [CFlush name, CDestroy name]\<rparr>))"

definition Close ::
  "(nat \<Rightarrow> string list) \<Rightarrow> string list \<Rightarrow> 'w XLogger \<Rightarrow> 'w sys
     \<Rightarrow> ('w XLogger \<times> 'w sys) option" where
  "Close ords fo bl s =
     (case Close_drain ords bl s of
        None \<Rightarrow> None
      | Some (bl1, s1) \<Rightarrow> Some (bl1, Close_final bl1 fo s1))"

subsection \<open>Goroutines: the dispatcher beside Close\<close>

text \<open>
  Every call of \<^verbatim>\<open>Async\<close> starts a goroutine that runs \<^verbatim>\<open>startXLogger\<close> on the
  logger's channel, and \<^verbatim>\<open>Close\<close> receives from the same channel while they run. The
  goroutines are interleaved step by step. A dispatcher is either at its receive (line
  217) or holds a record it is about to write (line 218). The goroutine in \<^verbatim>\<open>Close\<close>
  is at the test of line 340, at the receive of line 341, about to write the record it
  received (line 342), at the last loop (line 352), or has returned. A step is one
  test, one receive, or one loop over the adapters; a receive on the empty channel is
  no step (\<open>None\<close>): the goroutine waits.
\<close>

datatype dstate = Receiving | Holding logMsg

datatype cstate = Testing | Taking | Writing logMsg | Finishing | Returned

record 'w config =
  logger :: "'w XLogger"
  machine :: "'w sys"
  dispatchers :: "dstate list"
  closer :: cstate

text \<open>\<^verbatim>\<open>Async\<close> with its goroutine: the flag is set and one more dispatcher runs.\<close>

definition Async_go :: "'w XLogger \<Rightarrow> dstate list \<Rightarrow> 'w XLogger \<times> dstate list" where
  "Async_go bl ds = (Async bl, ds @ [Receiving])"

definition dispatcher_step :: "string list \<Rightarrow> nat \<Rightarrow> 'w config \<Rightarrow> 'w config option" where
  "dispatcher_step ks i cfg =
     (if i < length (dispatchers cfg) then
        (case dispatchers cfg ! i of
           Receiving \<Rightarrow>
             (case recv (msg (logger cfg)) of
                None \<Rightarrow> None
              | Some (bm, c) \<Rightarrow>
                  Some (cfg\<lparr>logger := (logger cfg)\<lparr>msg := c\<rparr>,
                            dispatchers := (dispatchers cfg)[i := Holding bm]\<rparr>))
         | Holding bm \<Rightarrow>
             Some (cfg\<lparr>machine := startXLogger_range (logger cfg) ks bm (machine cfg),
                       dispatchers := (dispatchers cfg)[i := Receiving]\<rparr>))
      else None)"

definition Close_step :: "string list \<Rightarrow> 'w config \<Rightarrow> 'w config option" where
  "Close_step ks cfg =
     (case closer cfg of
        Testing \<Rightarrow>
          Some (cfg\<lparr>closer := (if length (buf (msg (logger cfg))) > 0 then Taking
                                else Finishing)\<rparr>)
      | Taking \<Rightarrow>
          (case recv (msg (logger cfg)) of
             None \<Rightarrow> None
           | Some (bm, c) \<Rightarrow>
               Some (cfg\<lparr>logger := (logger cfg)\<lparr>msg := c\<rparr>, closer := Writing bm\<rparr>))
      | Writing bm \<Rightarrow>
          Some (cfg\<lparr>machine := Close_range (logger cfg) ks bm (machine cfg),
                    closer := Testing\<rparr>)
      | Finishing \<Rightarrow>
          Some (cfg\<lparr>machine := Close_final (logger cfg) ks (machine cfg),
                    closer := Returned\<rparr>)
      | Returned \<Rightarrow> None)"

text \<open>
  A schedule names, step by step, the goroutine that moves and the order of the range
  if the step has one.
\<close>

datatype move = Dispatcher nat "string list" | Closer "string list"

fun run :: "move list \<Rightarrow> 'w config \<Rightarrow> 'w config option" where
  "run [] cfg = Some cfg"
| "run (Dispatcher i ks # ms) cfg =
     (case dispatcher_step ks i cfg of None \<Rightarrow> None | Some cfg1 \<Rightarrow> run ms cfg1)"
| "run (Closer ks # ms) cfg =
     (case Close_step ks cfg of None \<Rightarrow> None | Some cfg1 \<Rightarrow> run ms cfg1)"

text \<open>
  The schedule in which \<^verbatim>\<open>Close\<close> runs alone on a queue of \<open>n\<close> records: test,
  receive and write for each record, then the test that fails and the last loop.
\<close>

fun closer_alone :: "(nat \<Rightarrow> string list) \<Rightarrow> string list \<Rightarrow> nat \<Rightarrow> move list" where
  "closer_alone ords fo 0 = [Closer [], Closer fo]"
| "closer_alone ords fo (Suc n) =
     Closer [] # Closer [] # Closer (ords 0) # closer_alone (\<lambda>i. ords (Suc i)) fo n"

subsection \<open>The public logging methods as a table\<close>

text \<open>
  The eleven methods with the level each one tests and the letter it writes, to state
  a property of all of them at once.
\<close>

datatype logging_method =
  EmergencyM | AlertM | CriticalM | ErrorM | WarningM | NoticeM | InformationalM | DebugM
| WarnM | InfoM | TraceM

fun invoke ::
  "logging_method \<Rightarrow> 'v env \<Rightarrow> string list \<Rightarrow> 'w XLogger \<Rightarrow> 'w sys \<Rightarrow> string \<Rightarrow> 'v list
     \<Rightarrow> (unit \<times> 'w XLogger \<times> 'w sys) option" where
  "invoke EmergencyM = Emergency"
| "invoke AlertM = Alert"
| "invoke CriticalM = Critical"
| "invoke ErrorM = Error"
| "invoke WarningM = Warning"
| "invoke NoticeM = Notice"
| "invoke InformationalM = Informational"
| "invoke DebugM = Debug"
| "invoke WarnM = Warn"
| "invoke InfoM = Info"
| "invoke TraceM = Trace"

fun severity :: "logging_method \<Rightarrow> int" where
  "severity EmergencyM = LevelEmergency"
| "severity AlertM = LevelAlert"
| "severity CriticalM = LevelCritical"
| "severity ErrorM = LevelError"
| "severity WarningM = LevelWarning"
| "severity NoticeM = LevelNotice"
| "severity InformationalM = LevelInformational"
| "severity DebugM = LevelDebug"
| "severity WarnM = LevelWarn"
| "severity InfoM = LevelInfo"
| "severity TraceM = LevelTrace"

fun level_tag :: "logging_method \<Rightarrow> string" where
  "level_tag EmergencyM = ''M''"
| "level_tag AlertM = ''A''"
| "level_tag CriticalM = ''C''"
| "level_tag ErrorM = ''E''"
| "level_tag WarningM = ''W''"
| "level_tag NoticeM = ''N''"
| "level_tag InformationalM = ''I''"
| "level_tag DebugM = ''D''"
| "level_tag WarnM = ''W''"
| "level_tag InfoM = ''I''"
| "level_tag TraceM = ''D''"



text \<open>The adapter calls that write the record \<open>lm\<close> to the adapters \<open>ks\<close>, in order.\<close>

definition write_calls :: "logMsg \<Rightarrow> string list \<Rightarrow> call list" where
  "write_calls lm ks = map (\<lambda>k. CWriteMsg k (logMsg.msg lm) (logMsg.level lm)) ks"

text \<open>
  The adapters' memory after the record \<open>lm\<close> was written to the adapters \<open>ks\<close>, in
  order; after the records of a queue were, the \<open>i\<close>-th to the adapters \<open>ords i\<close>; and
  after the adapters \<open>ks\<close> were flushed and destroyed.
\<close>

fun writes_world :: "'w XLogger \<Rightarrow> logMsg \<Rightarrow> string list \<Rightarrow> 'w \<Rightarrow> 'w" where
  "writes_world bl lm [] w = w"
| "writes_world bl lm (k # ks) w =
     (case outputs bl k of
        None \<Rightarrow> writes_world bl lm ks w
      | Some l \<Rightarrow>
          writes_world bl lm ks (snd (WriteMsg l (logMsg.msg lm) (logMsg.level lm) w)))"

fun drain_world :: "'w XLogger \<Rightarrow> (nat \<Rightarrow> string list) \<Rightarrow> logMsg list \<Rightarrow> 'w \<Rightarrow> 'w" where
  "drain_world bl ords [] w = w"
| "drain_world bl ords (lm # q) w =
     drain_world bl (\<lambda>i. ords (Suc i)) q (writes_world bl lm (ords 0) w)"

fun final_world :: "'w XLogger \<Rightarrow> string list \<Rightarrow> 'w \<Rightarrow> 'w" where
  "final_world bl [] w = w"
| "final_world bl (k # ks) w =
     (case outputs bl k of
        None \<Rightarrow> final_world bl ks w
      | Some l \<Rightarrow> final_world bl ks (Destroy l (Flush l w)))"

text \<open>
  The prefix of a delivered text, as a statement rather than as code: the free-form
  tag \<^verbatim>\<open>bl.extra\<close> in brackets and, when the caller's location is reported, the base
  name of its file and its line after the tag.
\<close>

definition location_prefix :: "'v env \<Rightarrow> 'w XLogger \<Rightarrow> string" where
  "location_prefix env bl =
     (if enableFuncCallDepth bl then
        (case Caller env (loggerFuncCallDepth bl) of
           (file, line, ok) \<Rightarrow>
             ''['' @ extra bl @ '':'' @ (if ok then snd (path_Split file) else ''???'')
               @ '':'' @ Itoa (if ok then line else 0) @ ''] '')
      else ''['' @ extra bl @ ''] '')"

definition final_text :: "'v env \<Rightarrow> 'w XLogger \<Rightarrow> logging_method \<Rightarrow> string \<Rightarrow> 'v list \<Rightarrow> string" where
  "final_text env bl m format v =
     location_prefix env bl @ Sprintf env (''['' @ level_tag m @ ''] '' @ format) v"

subsection \<open>A sample machine\<close>

text \<open>
  Concrete adapters and a concrete environment, on which the theorems below are
  instantiated. The memory is the list of lines the recording adapters have kept. The
  sample \<^verbatim>\<open>Sprintf\<close> expands \<^verbatim>\<open>%d\<close> only; the sample stack has one known frame.
\<close>

definition recorder :: "string \<Rightarrow> (string \<times> string \<times> int) list XLoggerInterface" where
  "recorder tag =
     \<lparr>Init = (\<lambda>config w. (None, w)),
      WriteMsg = (\<lambda>m l w. (None, w @ [(tag, m, l)])),
      Destroy = (\<lambda>w. w),
      Flush = (\<lambda>w. w)\<rparr>"

definition broken :: "(string \<times> string \<times> int) list XLoggerInterface" where
  "broken =
     \<lparr>Init = (\<lambda>config w. (Some ''bad config'', w)),
      WriteMsg = (\<lambda>m l w. (Some ''disk full'', w)),
      Destroy = (\<lambda>w. w),
      Flush = (\<lambda>w. w)\<rparr>"

definition console_factory :: "(string \<times> string \<times> int) list loggerType" where
  "console_factory w = (recorder ''console'', w)"

definition broken_factory :: "(string \<times> string \<times> int) list loggerType" where
  "broken_factory w = (broken, w)"

text \<open>An adapter that keeps a line for every call of its four methods.\<close>

definition journal :: "string \<Rightarrow> (string \<times> string \<times> int) list XLoggerInterface" where
  "journal tag =
     \<lparr>Init = (\<lambda>config w. (None, w @ [(tag, ''Init'', 0)])),
      WriteMsg = (\<lambda>m l w. (None, w @ [(tag, m, l)])),
      Destroy = (\<lambda>w. w @ [(tag, ''Destroy'', 0)]),
      Flush = (\<lambda>w. w @ [(tag, ''Flush'', 0)])\<rparr>"

definition journal_factory :: "(string \<times> string \<times> int) list loggerType" where
  "journal_factory w = (journal ''journal'', w)"

fun sample_Sprintf :: "string \<Rightarrow> int list \<Rightarrow> string" where
  "sample_Sprintf [] v = []"
| "sample_Sprintf [c] v = [c]"
| "sample_Sprintf (c # d # f) v =
     (if c = CHR ''%'' \<and> d = CHR ''d'' then
        (case v of
           [] \<Rightarrow> ''%!d(MISSING)'' @ sample_Sprintf f []
         | x # r \<Rightarrow> Itoa x @ sample_Sprintf f r)
      else c # sample_Sprintf (d # f) v)"

definition sample_env :: "int env" where
  "sample_env =
     \<lparr>Sprintf = sample_Sprintf,
      Caller = (\<lambda>skip. if skip = 2 then (''/srv/blog/main.go'', 42, True) else ([], 0, False))\<rparr>"

definition sample_sys :: "(string \<times> string \<times> int) list sys" where
  "sample_sys = \<lparr>world = [], calls = [], stdout = [], sprintfs = 0\<rparr>"

definition sample_logger :: "(string \<times> string \<times> int) list XLogger" where
  "sample_logger =
     \<lparr>level = LevelDebug, enableFuncCallDepth = False, loggerFuncCallDepth = 2,
      asynchronous = False, msg = \<lparr>buf = [], cap = 2\<rparr>,
      outputs = [''rec'' \<mapsto> recorder ''rec''], extra = []\<rparr>"

text \<open>
  A synchronous logger with three adapters, the middle one failing every write, and an
  asynchronous one with the same adapters and two records waiting in its queue.
\<close>

definition fanout_logger :: "(string \<times> string \<times> int) list XLogger" where
  "fanout_logger =
     \<lparr>level = LevelDebug, enableFuncCallDepth = False, loggerFuncCallDepth = 2,
      asynchronous = False, msg = \<lparr>buf = [], cap = 2\<rparr>,
      outputs = [''a'' \<mapsto> recorder ''a'', ''bad'' \<mapsto> broken, ''z'' \<mapsto> recorder ''z''],
      extra = []\<rparr>"

definition queued_logger :: "(string \<times> string \<times> int) list XLogger" where
  "queued_logger =
     \<lparr>level = LevelDebug, enableFuncCallDepth = False, loggerFuncCallDepth = 2,
      asynchronous = True,
      msg = \<lparr>buf = [\<lparr>logMsg.level = 3, logMsg.msg = ''[] [E] one''\<rparr>,
                    \<lparr>logMsg.level = 4, logMsg.msg = ''[] [W] two''\<rparr>],
             cap = 2\<rparr>,
      outputs = [''a'' \<mapsto> recorder ''a'', ''bad'' \<mapsto> broken, ''z'' \<mapsto> recorder ''z''],
      extra = []\<rparr>"

text \<open>
  A logger as the calls \<^verbatim>\<open>NewXLogger(1)\<close>, \<^verbatim>\<open>SetXLogger("journal", "{}")\<close>,
  \<^verbatim>\<open>Async()\<close> and \<^verbatim>\<open>Error("boom %d", 7)\<close> leave it when the dispatcher has not moved
  yet, and the machine beside it; then the moment \<^verbatim>\<open>Close\<close> is called.
\<close>

definition fresh_logger :: "(string \<times> string \<times> int) list XLogger" where
  "fresh_logger =
     \<lparr>level = LevelDebug, enableFuncCallDepth = False, loggerFuncCallDepth = 2,
      asynchronous = False, msg = \<lparr>buf = [], cap = 1\<rparr>,
      outputs = Map.empty, extra = []\<rparr>"

definition journal_logger :: "(string \<times> string \<times> int) list XLogger" where
  "journal_logger = fresh_logger\<lparr>outputs := [''journal'' \<mapsto> journal ''journal'']\<rparr>"

definition journal_sys :: "(string \<times> string \<times> int) list sys" where
  "journal_sys =
     \<lparr>world = [(''journal'', ''Init'', 0)], calls = [CInit ''journal'' ''{}''],
      stdout = [], sprintfs = 0\<rparr>"

definition boom :: logMsg where
  "boom = \<lparr>logMsg.level = 3, logMsg.msg = ''[] [E] boom 7''\<rparr>"

definition closing :: "(string \<times> string \<times> int) list config" where
  "closing =
     \<lparr>logger = journal_logger\<lparr>asynchronous := True, msg := \<lparr>buf = [boom], cap = 1\<rparr>\<rparr>,
      machine = journal_sys\<lparr>sprintfs := 2\<rparr>,
      dispatchers = [Receiving],
      closer = Testing\<rparr>"

section \<open>Properties\<close>

lemmas Level_defs =
  LevelEmergency_def LevelAlert_def LevelCritical_def LevelError_def LevelWarning_def
  LevelNotice_def LevelInformational_def LevelDebug_def LevelInfo_def LevelTrace_def
  LevelWarn_def

lemmas method_defs =
  Emergency_def Alert_def Critical_def Error_def Warning_def Notice_def Informational_def
  Debug_def Warn_def Info_def Trace_def

lemmas sample_defs = sample_env_def sample_sys_def sample_logger_def recorder_def broken_def

subsection \<open>The loops over the adapters\<close>

lemma write_calls_simps [simp]:
  "write_calls lm [] = []"
  "write_calls lm (k # ks) = CWriteMsg k (logMsg.msg lm) (logMsg.level lm) # write_calls lm ks"
  "write_calls lm (ks @ js) = write_calls lm ks @ write_calls lm js"
  by (simp_all add: write_calls_def)

lemma writerMsg_range_calls:
  "set ks \<subseteq> dom (outputs bl) \<Longrightarrow>
   \<exists>js. prefix js ks \<and> (ks \<noteq> [] \<longrightarrow> js \<noteq> [])
      \<and> calls (snd (writerMsg_range bl ks lm s)) = calls s @ write_calls lm js"
proof (induction ks arbitrary: s)
  case Nil
  then show ?case by simp
next
  case (Cons name ks)
  then obtain l where l: "outputs bl name = Some l" by auto
  obtain err w1 where w: "WriteMsg l (logMsg.msg lm) (logMsg.level lm) (world s) = (err, w1)"
    by (cases "WriteMsg l (logMsg.msg lm) (logMsg.level lm) (world s)")
  let ?s1 = "s\<lparr>world := w1, calls := calls s @ [CWriteMsg name (logMsg.msg lm) (logMsg.level lm)]\<rparr>"
  show ?case
  proof (cases err)
    case (Some e)
    have "calls (snd (writerMsg_range bl (name # ks) lm s)) = calls s @ write_calls lm [name]"
      using l w Some by (simp add: Println_def)
    moreover have "prefix [name] (name # ks)" by simp
    ultimately show ?thesis by blast
  next
    case None
    from Cons.prems have "set ks \<subseteq> dom (outputs bl)" by simp
    from Cons.IH [OF this, of ?s1] obtain js where
      js: "prefix js ks" "calls (snd (writerMsg_range bl ks lm ?s1)) = calls ?s1 @ write_calls lm js"
      by blast
    have "calls (snd (writerMsg_range bl (name # ks) lm s)) = calls s @ write_calls lm (name # js)"
      using l w None js(2) by simp
    moreover have "prefix (name # js) (name # ks)" using js(1) by simp
    ultimately show ?thesis by blast
  qed
qed

lemma writerMsg_range_ok_calls:
  "writerMsg_range bl ks lm s = (None, s1) \<Longrightarrow> set ks \<subseteq> dom (outputs bl) \<Longrightarrow>
   calls s1 = calls s @ write_calls lm ks"
proof (induction ks arbitrary: s)
  case Nil
  then show ?case by simp
next
  case (Cons name ks)
  then obtain l where l: "outputs bl name = Some l" by auto
  obtain err w1 where w: "WriteMsg l (logMsg.msg lm) (logMsg.level lm) (world s) = (err, w1)"
    by (cases "WriteMsg l (logMsg.msg lm) (logMsg.level lm) (world s)")
  show ?case
  proof (cases err)
    case (Some e)
    with Cons.prems(1) l w show ?thesis by simp
  next
    case None
    with Cons.prems l w Cons.IH show ?thesis by simp
  qed
qed

lemma writerMsg_range_append_ok:
  "writerMsg_range bl pre lm s = (None, s1) \<Longrightarrow>
   writerMsg_range bl (pre @ post) lm s = writerMsg_range bl post lm s1"
proof (induction pre arbitrary: s)
  case Nil
  then show ?case by simp
next
  case (Cons name pre)
  then show ?case
    by (auto simp: Let_def split: option.splits prod.splits)
qed

lemma startXLogger_range_append:
  "startXLogger_range bl (pre @ post) bm s =
   startXLogger_range bl post bm (startXLogger_range bl pre bm s)"
  by (induction pre arbitrary: s) (auto simp: Let_def split: option.splits prod.splits)

lemma startXLogger_range_calls:
  "set ks \<subseteq> dom (outputs bl) \<Longrightarrow>
   calls (startXLogger_range bl ks bm s) = calls s @ write_calls bm ks"
  by (induction ks arbitrary: s) (auto simp: Println_def Let_def split: option.splits prod.splits)


lemma Close_range_effect:
  "set ks \<subseteq> dom (outputs bl) \<Longrightarrow>
   calls (Close_range bl ks bm s) = calls s @ write_calls bm ks
   \<and> world (Close_range bl ks bm s) = writes_world bl bm ks (world s)"
  by (induction ks arbitrary: s) (auto simp: Println_def Let_def split: option.splits prod.splits)

lemma Close_final_effect:
  "set ks \<subseteq> dom (outputs bl) \<Longrightarrow>
   calls (Close_final bl ks s) = calls s @ concat (map (\<lambda>k. [CFlush k, CDestroy k]) ks)
   \<and> world (Close_final bl ks s) = final_world bl ks (world s)"
  by (induction ks arbitrary: s) (auto split: option.splits)

lemma Close_range_msg [simp]: "Close_range (bl\<lparr>msg := c\<rparr>) ks bm s = Close_range bl ks bm s"
  by (induction ks arbitrary: s) (auto simp: Let_def split: option.splits prod.splits)

lemma Close_final_msg [simp]: "Close_final (bl\<lparr>msg := c\<rparr>) ks s = Close_final bl ks s"
  by (induction ks arbitrary: s) (auto split: option.splits)

lemma writes_world_msg [simp]: "writes_world (bl\<lparr>msg := c\<rparr>) lm ks w = writes_world bl lm ks w"
  by (induction ks arbitrary: w) (auto split: option.splits)

lemma drain_world_msg [simp]: "drain_world (bl\<lparr>msg := c\<rparr>) ords q w = drain_world bl ords q w"
  by (induction q arbitrary: ords w) auto

lemma final_world_msg [simp]: "final_world (bl\<lparr>msg := c\<rparr>) ks w = final_world bl ks w"
  by (induction ks arbitrary: w) (auto split: option.splits)

subsection \<open>What the message path computes\<close>

lemma invoke_unfold:
  "invoke m env ks bl s format v =
     (if severity m > level bl then Some ((), bl, s)
      else discard (writerMsg env ks bl (s\<lparr>sprintfs := sprintfs s + 1\<rparr>) (severity m)
                      (Sprintf env (''['' @ level_tag m @ ''] '' @ format) v)))"
  by (cases m) (simp_all add: method_defs Level_defs)

lemma writerMsg_text_prefix: "writerMsg_text env bl m = location_prefix env bl @ m"
  by (simp add: writerMsg_text_def location_prefix_def path_Split_def split: prod.splits)

lemma writerMsg_async:
  "asynchronous bl \<Longrightarrow> length (buf (XLogger.msg bl)) < cap (XLogger.msg bl) \<Longrightarrow>
   writerMsg env ks bl s loglevel m =
     Some (None,
           bl\<lparr>XLogger.msg := (XLogger.msg bl)\<lparr>buf := buf (XLogger.msg bl) @
              [\<lparr>logMsg.level = loglevel, logMsg.msg = location_prefix env bl @ m\<rparr>]\<rparr>\<rparr>,
           s\<lparr>sprintfs := sprintfs s + 1\<rparr>)"
  by (simp add: writerMsg_def send_def writerMsg_text_prefix)

lemma writerMsg_sync:
  "\<not> asynchronous bl \<Longrightarrow>
   writerMsg env ks bl s loglevel m =
     (let r = writerMsg_range bl ks
                \<lparr>logMsg.level = loglevel, logMsg.msg = location_prefix env bl @ m\<rparr>
                (s\<lparr>sprintfs := sprintfs s + 1\<rparr>)
      in Some (fst r, bl, snd r))"
  by (simp add: writerMsg_def writerMsg_text_prefix split: prod.splits)

lemma writerMsg_sync_calls:
  assumes "\<not> asynchronous bl" "range_order (outputs bl) ks"
  shows "\<exists>js err s1. prefix js ks \<and> (ks \<noteq> [] \<longrightarrow> js \<noteq> [])
           \<and> writerMsg env ks bl s loglevel m = Some (err, bl, s1)
           \<and> calls s1 = calls s @ write_calls
                 \<lparr>logMsg.level = loglevel, logMsg.msg = location_prefix env bl @ m\<rparr> js"
proof -
  let ?lm = "\<lparr>logMsg.level = loglevel, logMsg.msg = location_prefix env bl @ m\<rparr>"
  let ?s = "s\<lparr>sprintfs := sprintfs s + 1\<rparr>"
  from assms(2) have "set ks \<subseteq> dom (outputs bl)" by (simp add: range_order_def)
  from writerMsg_range_calls [OF this, of ?lm ?s] obtain js where
    js: "prefix js ks" "ks \<noteq> [] \<longrightarrow> js \<noteq> []"
        "calls (snd (writerMsg_range bl ks ?lm ?s)) = calls ?s @ write_calls ?lm js"
    by blast
  have "writerMsg env ks bl s loglevel m =
          Some (fst (writerMsg_range bl ks ?lm ?s), bl, snd (writerMsg_range bl ks ?lm ?s))"
    using assms(1) by (simp add: writerMsg_sync Let_def)
  with js show ?thesis by auto
qed

lemma writerMsg_range_fails_at:
  assumes "writerMsg_range bl pre lm s = (None, s1)"
    and "outputs bl name = Some l"
    and "WriteMsg l (logMsg.msg lm) (logMsg.level lm) (world s1) = (Some e, w1)"
  shows "writerMsg_range bl (pre @ name # post) lm s =
           (Some (AdapterError e),
            s1\<lparr>world := w1,
               calls := calls s1 @ [CWriteMsg name (logMsg.msg lm) (logMsg.level lm)],
               stdout := stdout s1 @ [''unable to WriteMsg to adapter: '' @ name @ '' '' @ e]\<rparr>)"
  using assms by (simp add: writerMsg_range_append_ok Println_def)

lemma startXLogger_range_fails_at:
  assumes "startXLogger_range bl pre bm s = s1"
    and "outputs bl name = Some l"
    and "WriteMsg l (logMsg.msg bm) (logMsg.level bm) (world s1) = (Some e, w1)"
  shows "startXLogger_range bl (pre @ name # post) bm s =
           startXLogger_range bl post bm
             (s1\<lparr>world := w1,
                 calls := calls s1 @ [CWriteMsg name (logMsg.msg bm) (logMsg.level bm)],
                 stdout := stdout s1 @ [''ERROR, unable to WriteMsg: '' @ e]\<rparr>)"
  using assms by (simp add: startXLogger_range_append Println_def)

lemma Close_drain_effect:
  "\<forall>i < length (buf (XLogger.msg bl)). set (ords i) \<subseteq> dom (outputs bl) \<Longrightarrow>
   \<exists>s1. Close_drain ords bl s = Some (bl\<lparr>XLogger.msg := (XLogger.msg bl)\<lparr>buf := []\<rparr>\<rparr>, s1)
      \<and> calls s1 = calls s @ concat (map (\<lambda>i. write_calls (buf (XLogger.msg bl) ! i) (ords i))
                                        [0..<length (buf (XLogger.msg bl))])
      \<and> world s1 = drain_world bl ords (buf (XLogger.msg bl)) (world s)"
proof (induction ords bl s rule: Close_drain.induct)
  case (1 ords bl s)
  show ?case
  proof (cases "buf (XLogger.msg bl)")
    case Nil
    then show ?thesis by simp
  next
    case (Cons bm rest)
    let ?c = "(XLogger.msg bl)\<lparr>buf := rest\<rparr>"
    let ?bl = "bl\<lparr>XLogger.msg := ?c\<rparr>"
    let ?s = "Close_range bl (ords 0) bm s"
    have rc: "recv (XLogger.msg bl) = Some (bm, ?c)" using Cons by (simp add: recv_def)
    have pos: "0 < length (buf (XLogger.msg bl))" using Cons by simp
    have o0: "set (ords 0) \<subseteq> dom (outputs bl)" using "1.prems" pos by blast
    have rest: "\<forall>i < length (buf (XLogger.msg ?bl)). set (ords (Suc i)) \<subseteq> dom (outputs ?bl)"
      using "1.prems" Cons by auto
    from "1.IH" [OF pos rc refl rest] obtain s1 where
      s1: "Close_drain (\<lambda>i. ords (Suc i)) ?bl ?s = Some (?bl\<lparr>XLogger.msg := (XLogger.msg ?bl)\<lparr>buf := []\<rparr>\<rparr>, s1)"
          "calls s1 = calls ?s @ concat (map (\<lambda>i. write_calls (buf (XLogger.msg ?bl) ! i) (ords (Suc i)))
                                        [0..<length (buf (XLogger.msg ?bl))])"
          "world s1 = drain_world ?bl (\<lambda>i. ords (Suc i)) (buf (XLogger.msg ?bl)) (world ?s)"
      by blast
    have step: "Close_drain ords bl s = Close_drain (\<lambda>i. ords (Suc i)) ?bl ?s"
      using pos rc by (subst Close_drain.simps) simp
    have idx: "concat (map (\<lambda>i. write_calls ((bm # rest) ! i) (ords i)) [0..<Suc (length rest)])
             = write_calls bm (ords 0)
               @ concat (map (\<lambda>i. write_calls (rest ! i) (ords (Suc i))) [0..<length rest])"
      by (simp add: upt_conv_Cons map_Suc_upt [symmetric] comp_def del: upt_Suc)
    note eff = Close_range_effect [OF o0, of bm s]
    have "calls s1 = calls s @ concat (map (\<lambda>i. write_calls (buf (XLogger.msg bl) ! i) (ords i))
                                        [0..<length (buf (XLogger.msg bl))])"
      using s1(2) eff Cons idx by simp
    moreover have "world s1 = drain_world bl ords (buf (XLogger.msg bl)) (world s)"
      using s1(3) eff Cons by simp
    ultimately show ?thesis using step s1(1) by simp
  qed
qed

text \<open>
  \<^verbatim>\<open>Close\<close> when no dispatcher runs. It returns with the queue empty; it wrote every
  record, in the order of the queue, to every adapter, and then flushed and destroyed
  every adapter.
\<close>

lemma Close_alone:
  assumes "\<forall>i < length (buf (XLogger.msg bl)). range_order (outputs bl) (ords i)"
    and "range_order (outputs bl) fo"
  shows "\<exists>s1. Close ords fo bl s = Some (bl\<lparr>XLogger.msg := (XLogger.msg bl)\<lparr>buf := []\<rparr>\<rparr>, s1)
           \<and> calls s1 = calls s
               @ concat (map (\<lambda>i. map (\<lambda>k. CWriteMsg k (logMsg.msg (buf (XLogger.msg bl) ! i))
                                                     (logMsg.level (buf (XLogger.msg bl) ! i)))
                                     (ords i))
                             [0..<length (buf (XLogger.msg bl))])
               @ concat (map (\<lambda>k. [CFlush k, CDestroy k]) fo)
           \<and> world s1 =
               final_world bl fo (drain_world bl ords (buf (XLogger.msg bl)) (world s))"
proof -
  from assms(1) have "\<forall>i < length (buf (XLogger.msg bl)). set (ords i) \<subseteq> dom (outputs bl)"
    by (simp add: range_order_def)
  from Close_drain_effect [OF this, of s] obtain s1 where
    s1: "Close_drain ords bl s = Some (bl\<lparr>XLogger.msg := (XLogger.msg bl)\<lparr>buf := []\<rparr>\<rparr>, s1)"
        "calls s1 = calls s @ concat (map (\<lambda>i. write_calls (buf (XLogger.msg bl) ! i) (ords i))
                                        [0..<length (buf (XLogger.msg bl))])"
        "world s1 = drain_world bl ords (buf (XLogger.msg bl)) (world s)"
    by blast
  let ?bl = "bl\<lparr>XLogger.msg := (XLogger.msg bl)\<lparr>buf := []\<rparr>\<rparr>"
  from assms(2) have "set fo \<subseteq> dom (outputs ?bl)" by (simp add: range_order_def)
  from Close_final_effect [OF this, of s1] s1
  show ?thesis by (simp add: Close_def write_calls_def)
qed

text \<open>The steps of \<^verbatim>\<open>Close\<close>, taken with no other goroutine moving, are \<open>Close\<close>.\<close>

lemma run_closer_alone:
  "closer cfg = Testing \<Longrightarrow> length (buf (XLogger.msg (logger cfg))) = n \<Longrightarrow>
   run (closer_alone ords fo n) cfg =
     map_option (\<lambda>(bl1, s1). cfg\<lparr>logger := bl1, machine := s1, closer := Returned\<rparr>)
       (Close ords fo (logger cfg) (machine cfg))"
proof (induction n arbitrary: cfg ords)
  case 0
  then show ?case
    by (simp add: Close_step_def Close_def)
next
  case (Suc n)
  then obtain bm rest where q: "buf (XLogger.msg (logger cfg)) = bm # rest" "length rest = n"
    by (cases "buf (XLogger.msg (logger cfg))") auto
  let ?c = "(XLogger.msg (logger cfg))\<lparr>buf := rest\<rparr>"
  let ?cfg = "cfg\<lparr>logger := (logger cfg)\<lparr>XLogger.msg := ?c\<rparr>,
                  machine := Close_range (logger cfg) (ords 0) bm (machine cfg),
                  closer := Testing\<rparr>"
  have rc: "recv (XLogger.msg (logger cfg)) = Some (bm, ?c)"
    using q by (simp add: recv_def)
  have three: "run (closer_alone ords fo (Suc n)) cfg
             = run (closer_alone (\<lambda>i. ords (Suc i)) fo n) ?cfg"
    using Suc.prems(1) q rc by (simp add: Close_step_def)
  have t: "closer ?cfg = Testing" using Suc.prems(1) by simp
  have l: "length (buf (XLogger.msg (logger ?cfg))) = n" using q by simp
  have unfold: "Close ords fo (logger cfg) (machine cfg)
              = Close (\<lambda>i. ords (Suc i)) fo (logger ?cfg) (machine ?cfg)"
  proof -
    have "Close_drain ords (logger cfg) (machine cfg)
        = Close_drain (\<lambda>i. ords (Suc i)) (logger ?cfg) (machine ?cfg)"
      using q rc by (subst Close_drain.simps) (simp del: Close_drain.simps)
    then show ?thesis by (simp add: Close_def del: Close_drain.simps)
  qed
  show ?case
    unfolding three Suc.IH [OF t l] unfold
    by (cases "Close (\<lambda>i. ords (Suc i)) fo (logger ?cfg) (machine ?cfg)") auto
qed

subsection \<open>Paths, unresolved frames and the sample logger\<close>

lemma path_Split_parts:
  assumes "path_Split p = (dir, file)"
  shows "p = dir @ file \<and> CHR ''/'' \<notin> set file \<and> (dir = [] \<or> last dir = CHR ''/'')"
proof -
  define tw where "tw = takeWhile (\<lambda>c. c \<noteq> CHR ''/'') (rev p)"
  define dw where "dw = dropWhile (\<lambda>c. c \<noteq> CHR ''/'') (rev p)"
  from assms have f: "file = rev tw" and dir: "dir = take (length p - length file) p"
    by (auto simp: path_Split_def Let_def tw_def)
  have "rev p = tw @ dw" by (simp add: tw_def dw_def)
  then have "rev (rev p) = rev (tw @ dw)" by (rule arg_cong)
  then have p: "p = rev dw @ rev tw" by simp
  then have "length p - length file = length (rev dw)" using f by simp
  with p have d: "dir = rev dw" unfolding dir by simp
  have noslash: "CHR ''/'' \<notin> set file"
    using f by (auto simp: tw_def dest: set_takeWhileD)
  have "dw = [] \<or> hd dw = CHR ''/''"
    using hd_dropWhile [of "\<lambda>c. c \<noteq> CHR ''/''" "rev p"] by (auto simp: dw_def)
  then have "dir = [] \<or> last dir = CHR ''/''"
    using d by (cases dw) auto
  with p d f noslash show ?thesis by simp
qed

lemma writerMsg_text_unresolved:
  "enableFuncCallDepth bl \<Longrightarrow> Caller env (loggerFuncCallDepth bl) = (file, line, False) \<Longrightarrow>
   writerMsg_text env bl m = ''['' @ extra bl @ '':???:0] '' @ m"
  by (simp add: writerMsg_text_def path_Split_def Itoa_def)

lemma sample_logger_reachable:
  "NewXLogger 65536 2 = Inr (sample_logger\<lparr>outputs := Map.empty\<rparr>)
   \<and> SetXLogger [''rec'' \<mapsto> (\<lambda>w. (recorder ''rec'', w))] (sample_logger\<lparr>outputs := Map.empty\<rparr>)
        sample_sys ''rec'' [] =
       (None, sample_logger, sample_sys\<lparr>calls := [CInit ''rec'' []]\<rparr>)"
  by (simp add: NewXLogger_def SetXLogger_def sample_defs)

subsection \<open>The level filter\<close>



subsection \<open>The text that reaches the adapters\<close>

text \<open>
  C2, as the code has it. A call that passes the filter delivers the text
  \<open>final_text\<close>, with the level of the method: in synchronous mode to the adapters of
  the range, one after the other, until a write fails; in asynchronous mode, with room
  in the queue, as one new record at the end of the queue. The text is the
  \<^verbatim>\<open>Sprintf\<close> expansion of the bracketed level letter followed by the format, which
  for a \<^verbatim>\<open>Sprintf\<close> that copies text without verbs is the bracketed letter followed by
  the expansion of the format; and it always carries one prefix before that: the
  free-form tag \<^verbatim>\<open>bl.extra\<close> in brackets, joined by the base name of the caller's
  file and its line number when the caller's location is reported (\<^verbatim>\<open>???\<close> and 0
  for a frame that cannot be resolved).
\<close>

theorem delivered_text:
  assumes "severity m \<le> level bl"
    and "range_order (outputs bl) ks"
  shows "(\<not> asynchronous bl \<longrightarrow>
            (\<exists>js s1. prefix js ks \<and> (ks \<noteq> [] \<longrightarrow> js \<noteq> [])
               \<and> invoke m env ks bl s format v = Some ((), bl, s1)
               \<and> calls s1 = calls s
                    @ map (\<lambda>k. CWriteMsg k (final_text env bl m format v) (severity m)) js))
       \<and> (asynchronous bl \<and> length (buf (XLogger.msg bl)) < cap (XLogger.msg bl) \<longrightarrow>
            invoke m env ks bl s format v =
              Some ((),
                    bl\<lparr>XLogger.msg := (XLogger.msg bl)\<lparr>buf := buf (XLogger.msg bl) @
                       [\<lparr>logMsg.level = severity m,
                         logMsg.msg = final_text env bl m format v\<rparr>]\<rparr>\<rparr>,
                    s\<lparr>sprintfs := sprintfs s + 2\<rparr>))
       \<and> (Sprintf env (''['' @ level_tag m @ ''] '' @ format) v =
            ''['' @ level_tag m @ ''] '' @ Sprintf env format v \<longrightarrow>
          final_text env bl m format v =
            location_prefix env bl @ ''['' @ level_tag m @ ''] '' @ Sprintf env format v)
       \<and> location_prefix env bl =
           (if enableFuncCallDepth bl then
              (case Caller env (loggerFuncCallDepth bl) of
                 (file, line, ok) \<Rightarrow>
                   ''['' @ extra bl @ '':'' @ (if ok then snd (path_Split file) else ''???'')
                     @ '':'' @ Itoa (if ok then line else 0) @ ''] '')
            else ''['' @ extra bl @ ''] '')"
proof (intro conjI impI)
  assume sync: "\<not> asynchronous bl"
  let ?s = "s\<lparr>sprintfs := sprintfs s + 1\<rparr>"
  let ?m = "Sprintf env (''['' @ level_tag m @ ''] '' @ format) v"
  from writerMsg_sync_calls [OF sync assms(2), of env ?s "severity m" ?m]
  obtain js err s1 where
    js: "prefix js ks" "ks \<noteq> [] \<longrightarrow> js \<noteq> []"
        "writerMsg env ks bl ?s (severity m) ?m = Some (err, bl, s1)"
        "calls s1 = calls ?s @ write_calls
               \<lparr>logMsg.level = severity m, logMsg.msg = location_prefix env bl @ ?m\<rparr> js"
    by blast
  have "invoke m env ks bl s format v = Some ((), bl, s1)"
    using assms(1) js(3) by (simp add: invoke_unfold discard_def)
  moreover have "calls s1 = calls s
      @ map (\<lambda>k. CWriteMsg k (final_text env bl m format v) (severity m)) js"
    using js(4) by (simp add: write_calls_def final_text_def)
  ultimately show "\<exists>js s1. prefix js ks \<and> (ks \<noteq> [] \<longrightarrow> js \<noteq> [])
               \<and> invoke m env ks bl s format v = Some ((), bl, s1)
               \<and> calls s1 = calls s
                    @ map (\<lambda>k. CWriteMsg k (final_text env bl m format v) (severity m)) js"
    using js(1,2) by blast
next
  assume "asynchronous bl \<and> length (buf (XLogger.msg bl)) < cap (XLogger.msg bl)"
  then show "invoke m env ks bl s format v =
              Some ((),
                    bl\<lparr>XLogger.msg := (XLogger.msg bl)\<lparr>buf := buf (XLogger.msg bl) @
                       [\<lparr>logMsg.level = severity m,
                         logMsg.msg = final_text env bl m format v\<rparr>]\<rparr>\<rparr>,
                    s\<lparr>sprintfs := sprintfs s + 2\<rparr>)"
    using assms(1) by (simp add: invoke_unfold discard_def writerMsg_async final_text_def)
next
  assume "Sprintf env (''['' @ level_tag m @ ''] '' @ format) v =
            ''['' @ level_tag m @ ''] '' @ Sprintf env format v"
  then show "final_text env bl m format v =
            location_prefix env bl @ ''['' @ level_tag m @ ''] '' @ Sprintf env format v"
    by (simp add: final_text_def)
next
  show "location_prefix env bl =
           (if enableFuncCallDepth bl then
              (case Caller env (loggerFuncCallDepth bl) of
                 (file, line, ok) \<Rightarrow>
                   ''['' @ extra bl @ '':'' @ (if ok then snd (path_Split file) else ''???'')
                     @ '':'' @ Itoa (if ok then line else 0) @ ''] '')
            else ''['' @ extra bl @ ''] '')"
    by (simp add: location_prefix_def)
qed

text \<open>
  The claim as it was written has no prefix when the caller's location is not reported.
  The code puts the bracketed tag there: with an empty tag, \<^verbatim>\<open>Error("boom %d", 7)\<close>
  reaches the adapter as \<^verbatim>\<open>[] [E] boom 7\<close>.
\<close>

theorem delivered_text_counterexample:
  "\<not> enableFuncCallDepth sample_logger
   \<and> Error sample_env [''rec''] sample_logger sample_sys ''boom %d'' [7] =
       Some ((), sample_logger,
             \<lparr>world = [(''rec'', ''[] [E] boom 7'', 3)],
              calls = [CWriteMsg ''rec'' ''[] [E] boom 7'' 3],
              stdout = [], sprintfs = 2\<rparr>)
   \<and> ''[] [E] boom 7'' \<noteq> ''[E] '' @ Sprintf sample_env ''boom %d'' [7]"
  by (simp add: Error_def writerMsg_def writerMsg_text_def discard_def sample_defs
        Level_defs Itoa_def Let_def)

theorem delivered_text_witness:
  "severity ErrorM \<le> level (EnableFuncCallDepth True (SetExtra ''blog'' sample_logger))
   \<and> range_order (outputs (EnableFuncCallDepth True (SetExtra ''blog'' sample_logger))) [''rec'']
   \<and> final_text sample_env (EnableFuncCallDepth True (SetExtra ''blog'' sample_logger))
        ErrorM ''boom %d'' [7] = ''[blog:main.go:42] [E] boom 7''
   \<and> (\<exists>s1. invoke ErrorM sample_env [''rec'']
               (EnableFuncCallDepth True (SetExtra ''blog'' sample_logger))
               sample_sys ''boom %d'' [7]
             = Some ((), EnableFuncCallDepth True (SetExtra ''blog'' sample_logger), s1)
           \<and> calls s1 = [CWriteMsg ''rec'' ''[blog:main.go:42] [E] boom 7'' 3])
   \<and> invoke WarnM sample_env [''rec''] (Async sample_logger) sample_sys ''slow'' [] =
       Some ((),
             (Async sample_logger)
               \<lparr>XLogger.msg := \<lparr>buf = [\<lparr>logMsg.level = 4, logMsg.msg = ''[] [W] slow''\<rparr>],
                                cap = 2\<rparr>\<rparr>,
             sample_sys\<lparr>sprintfs := 2\<rparr>)"
proof -
  let ?bl = "EnableFuncCallDepth True (SetExtra ''blog'' sample_logger)"
  let ?al = "Async sample_logger"
  have lv: "severity ErrorM \<le> level ?bl" "severity WarnM \<le> level ?al"
    by (simp_all add: EnableFuncCallDepth_def SetExtra_def Async_def sample_logger_def Level_defs)
  have ro: "range_order (outputs ?bl) [''rec'']" "range_order (outputs ?al) [''rec'']"
    by (simp_all add: EnableFuncCallDepth_def SetExtra_def Async_def sample_logger_def
          range_order_def)
  have sync: "\<not> asynchronous ?bl"
    by (simp add: EnableFuncCallDepth_def SetExtra_def sample_logger_def)
  have async: "asynchronous ?al \<and> length (buf (XLogger.msg ?al)) < cap (XLogger.msg ?al)"
    by (simp add: Async_def sample_logger_def)
  have lit: "Sprintf sample_env (''['' @ level_tag ErrorM @ ''] '' @ ''boom %d'') [7] =
             ''['' @ level_tag ErrorM @ ''] '' @ Sprintf sample_env ''boom %d'' [7]"
    by (simp add: sample_env_def)
  have ftext: "final_text sample_env ?bl ErrorM ''boom %d'' [7] = ''[blog:main.go:42] [E] boom 7''"
    using delivered_text [OF lv(1) ro(1), where env = sample_env and format = "''boom %d''"
        and v = "[7]"] lit
    by (simp add: EnableFuncCallDepth_def SetExtra_def sample_logger_def sample_env_def
          path_Split_def Itoa_def)
  have ftext2: "final_text sample_env ?al WarnM ''slow'' [] = ''[] [W] slow''"
    by (simp add: final_text_def location_prefix_def Async_def sample_logger_def sample_env_def)
  have "sample_sys\<lparr>sprintfs := sprintfs sample_sys + 2\<rparr> = sample_sys\<lparr>sprintfs := 2\<rparr>"
    by (simp add: sample_sys_def)
  moreover have "(XLogger.msg ?al)\<lparr>buf := buf (XLogger.msg ?al) @ [\<lparr>logMsg.level = severity WarnM,
                         logMsg.msg = ''[] [W] slow''\<rparr>]\<rparr>
       = \<lparr>buf = [\<lparr>logMsg.level = 4, logMsg.msg = ''[] [W] slow''\<rparr>], cap = 2\<rparr>"
    by (simp add: Async_def sample_logger_def Level_defs)
  ultimately have q: "invoke WarnM sample_env [''rec''] ?al sample_sys ''slow'' [] =
       Some ((), ?al\<lparr>XLogger.msg := \<lparr>buf = [\<lparr>logMsg.level = 4, logMsg.msg = ''[] [W] slow''\<rparr>],
                                cap = 2\<rparr>\<rparr>, sample_sys\<lparr>sprintfs := 2\<rparr>)"
    using delivered_text [OF lv(2) ro(2), where env = sample_env and format = "''slow''"
        and v = "[]" and s = sample_sys] async ftext2
    by simp
  have w: "\<exists>s1. invoke ErrorM sample_env [''rec''] ?bl sample_sys ''boom %d'' [7] = Some ((), ?bl, s1)
           \<and> calls s1 = [CWriteMsg ''rec'' ''[blog:main.go:42] [E] boom 7'' 3]"
    using delivered_text [OF lv(1) ro(1), where env = sample_env and format = "''boom %d''"
        and v = "[7]" and s = sample_sys] sync ftext
    by (auto simp: prefix_Cons sample_sys_def Level_defs)
  from lv(1) ro(1) ftext w q show ?thesis by blast
qed

subsection \<open>Shutdown beside the dispatcher\<close>

lemma Close_alone_example:
  "run (closer_alone (\<lambda>i. [''journal'']) [''journal''] 1) closing
     = Some \<lparr>logger = (logger closing)\<lparr>XLogger.msg := \<lparr>buf = [], cap = 1\<rparr>\<rparr>,
             machine =
               \<lparr>world = [(''journal'', ''Init'', 0), (''journal'', ''[] [E] boom 7'', 3),
                         (''journal'', ''Flush'', 0), (''journal'', ''Destroy'', 0)],
                calls = [CInit ''journal'' ''{}'', CWriteMsg ''journal'' ''[] [E] boom 7'' 3,
                         CFlush ''journal'', CDestroy ''journal''],
                stdout = [], sprintfs = 2\<rparr>,
             dispatchers = [Receiving], closer = Returned\<rparr>"
  by (simp add: Close_step_def recv_def closing_def journal_logger_def
        fresh_logger_def journal_sys_def journal_def boom_def)

text \<open>
  C3, where the code fails it. \<^verbatim>\<open>Close\<close> is commented as flushing all data of the
  channel and destroying all adapters, and alone it does (\<open>Close_alone\<close>, and
  \<open>Close_alone_example\<close> on the logger below). But the
  asynchronous mode of the claim exists only with the dispatcher that \<^verbatim>\<open>Async\<close>
  starts, which receives from the same channel. Take a logger made by
  \<^verbatim>\<open>NewXLogger(1)\<close>, one adapter added, \<^verbatim>\<open>Async()\<close>, and one record queued by
  \<^verbatim>\<open>Error("boom %d", 7)\<close>; then \<^verbatim>\<open>Close()\<close>.
  \<^item> If the dispatcher does not move, \<^verbatim>\<open>Close\<close> writes the record, then flushes and
    destroys the adapter, and returns.
  \<^item> If the dispatcher receives the record before \<^verbatim>\<open>Close\<close> tests the queue,
    \<^verbatim>\<open>Close\<close> finds it empty, writes nothing, flushes and destroys the adapter and
    returns; the dispatcher then writes the record to the destroyed adapter.
  \<^item> If the dispatcher receives the record after the test of \<^verbatim>\<open>Close\<close> and before
    its receive, \<^verbatim>\<open>Close\<close> waits at the receive; once the dispatcher has written the
    record, neither goroutine can move: \<^verbatim>\<open>Close\<close> never returns, and the adapter is
    neither flushed nor destroyed.
\<close>

theorem Close_races_with_dispatcher:
  "NewXLogger 65536 1 = Inr fresh_logger
   \<and> SetXLogger [''journal'' \<mapsto> journal_factory] fresh_logger sample_sys ''journal'' ''{}''
       = (None, journal_logger, journal_sys)
   \<and> Async_go journal_logger [] = (Async journal_logger, [Receiving])
   \<and> invoke ErrorM sample_env [''journal''] (Async journal_logger) journal_sys ''boom %d'' [7]
       = Some ((), logger closing, machine closing)
   \<and> buf (XLogger.msg (logger closing)) = [boom]
   \<and> dispatchers closing = [Receiving] \<and> closer closing = Testing
   \<and> range_order (outputs (logger closing)) [''journal'']
   \<and> run [Closer [], Closer [], Closer [''journal''], Closer [], Closer [''journal'']] closing
       = Some \<lparr>logger = (logger closing)\<lparr>XLogger.msg := \<lparr>buf = [], cap = 1\<rparr>\<rparr>,
               machine =
                 \<lparr>world = [(''journal'', ''Init'', 0), (''journal'', ''[] [E] boom 7'', 3),
                           (''journal'', ''Flush'', 0), (''journal'', ''Destroy'', 0)],
                  calls = [CInit ''journal'' ''{}'', CWriteMsg ''journal'' ''[] [E] boom 7'' 3,
                           CFlush ''journal'', CDestroy ''journal''],
                  stdout = [], sprintfs = 2\<rparr>,
               dispatchers = [Receiving], closer = Returned\<rparr>
   \<and> run [Dispatcher 0 [''journal''], Closer [], Closer [''journal''],
           Dispatcher 0 [''journal'']] closing
       = Some \<lparr>logger = (logger closing)\<lparr>XLogger.msg := \<lparr>buf = [], cap = 1\<rparr>\<rparr>,
               machine =
                 \<lparr>world = [(''journal'', ''Init'', 0), (''journal'', ''Flush'', 0),
                           (''journal'', ''Destroy'', 0), (''journal'', ''[] [E] boom 7'', 3)],
                  calls = [CInit ''journal'' ''{}'', CFlush ''journal'', CDestroy ''journal'',
                           CWriteMsg ''journal'' ''[] [E] boom 7'' 3],
                  stdout = [], sprintfs = 2\<rparr>,
               dispatchers = [Receiving], closer = Returned\<rparr>
   \<and> run [Closer [], Dispatcher 0 [''journal''], Dispatcher 0 [''journal'']] closing
       = Some \<lparr>logger = (logger closing)\<lparr>XLogger.msg := \<lparr>buf = [], cap = 1\<rparr>\<rparr>,
               machine =
                 \<lparr>world = [(''journal'', ''Init'', 0), (''journal'', ''[] [E] boom 7'', 3)],
                  calls = [CInit ''journal'' ''{}'', CWriteMsg ''journal'' ''[] [E] boom 7'' 3],
                  stdout = [], sprintfs = 2\<rparr>,
               dispatchers = [Receiving], closer = Taking\<rparr>
   \<and> Close_step [''journal'']
        \<lparr>logger = (logger closing)\<lparr>XLogger.msg := \<lparr>buf = [], cap = 1\<rparr>\<rparr>,
         machine =
           \<lparr>world = [(''journal'', ''Init'', 0), (''journal'', ''[] [E] boom 7'', 3)],
            calls = [CInit ''journal'' ''{}'', CWriteMsg ''journal'' ''[] [E] boom 7'' 3],
            stdout = [], sprintfs = 2\<rparr>,
         dispatchers = [Receiving], closer = Taking\<rparr> = None
   \<and> dispatcher_step [''journal''] 0
        \<lparr>logger = (logger closing)\<lparr>XLogger.msg := \<lparr>buf = [], cap = 1\<rparr>\<rparr>,
         machine =
           \<lparr>world = [(''journal'', ''Init'', 0), (''journal'', ''[] [E] boom 7'', 3)],
            calls = [CInit ''journal'' ''{}'', CWriteMsg ''journal'' ''[] [E] boom 7'' 3],
            stdout = [], sprintfs = 2\<rparr>,
         dispatchers = [Receiving], closer = Taking\<rparr> = None"
proof -
  have made: "NewXLogger 65536 1 = Inr fresh_logger"
    by (simp add: NewXLogger_def fresh_logger_def)
  have added: "SetXLogger [''journal'' \<mapsto> journal_factory] fresh_logger sample_sys
                 ''journal'' ''{}'' = (None, journal_logger, journal_sys)"
    by (simp add: SetXLogger_def journal_factory_def journal_def journal_logger_def
          fresh_logger_def journal_sys_def sample_sys_def)
  have started: "Async_go journal_logger [] = (Async journal_logger, [Receiving])"
    by (simp add: Async_go_def)
  have logged: "invoke ErrorM sample_env [''journal''] (Async journal_logger) journal_sys
                  ''boom %d'' [7] = Some ((), logger closing, machine closing)"
    by (simp add: Error_def writerMsg_def writerMsg_text_def send_def discard_def Async_def
          journal_logger_def fresh_logger_def journal_sys_def closing_def boom_def
          sample_env_def Level_defs Itoa_def Let_def)
  have start: "buf (XLogger.msg (logger closing)) = [boom]"
      "dispatchers closing = [Receiving]" "closer closing = Testing"
      "range_order (outputs (logger closing)) [''journal'']"
    by (simp_all add: closing_def journal_logger_def range_order_def)
  have late: "run [Dispatcher 0 [''journal''], Closer [], Closer [''journal''],
           Dispatcher 0 [''journal'']] closing
       = Some \<lparr>logger = (logger closing)\<lparr>XLogger.msg := \<lparr>buf = [], cap = 1\<rparr>\<rparr>,
               machine =
                 \<lparr>world = [(''journal'', ''Init'', 0), (''journal'', ''Flush'', 0),
                           (''journal'', ''Destroy'', 0), (''journal'', ''[] [E] boom 7'', 3)],
                  calls = [CInit ''journal'' ''{}'', CFlush ''journal'', CDestroy ''journal'',
                           CWriteMsg ''journal'' ''[] [E] boom 7'' 3],
                  stdout = [], sprintfs = 2\<rparr>,
               dispatchers = [Receiving], closer = Returned\<rparr>"
    by (simp add: dispatcher_step_def Close_step_def recv_def closing_def journal_logger_def
          fresh_logger_def journal_sys_def journal_def boom_def)
  have stuck: "run [Closer [], Dispatcher 0 [''journal''], Dispatcher 0 [''journal'']] closing
       = Some \<lparr>logger = (logger closing)\<lparr>XLogger.msg := \<lparr>buf = [], cap = 1\<rparr>\<rparr>,
               machine =
                 \<lparr>world = [(''journal'', ''Init'', 0), (''journal'', ''[] [E] boom 7'', 3)],
                  calls = [CInit ''journal'' ''{}'', CWriteMsg ''journal'' ''[] [E] boom 7'' 3],
                  stdout = [], sprintfs = 2\<rparr>,
               dispatchers = [Receiving], closer = Taking\<rparr>"
    by (simp add: dispatcher_step_def Close_step_def recv_def closing_def journal_logger_def
          fresh_logger_def journal_sys_def journal_def boom_def)
  have nostep: "Close_step [''journal'']
        \<lparr>logger = (logger closing)\<lparr>XLogger.msg := \<lparr>buf = [], cap = 1\<rparr>\<rparr>,
         machine =
           \<lparr>world = [(''journal'', ''Init'', 0), (''journal'', ''[] [E] boom 7'', 3)],
            calls = [CInit ''journal'' ''{}'', CWriteMsg ''journal'' ''[] [E] boom 7'' 3],
            stdout = [], sprintfs = 2\<rparr>,
         dispatchers = [Receiving], closer = Taking\<rparr> = None"
      "dispatcher_step [''journal''] 0
        \<lparr>logger = (logger closing)\<lparr>XLogger.msg := \<lparr>buf = [], cap = 1\<rparr>\<rparr>,
         machine =
           \<lparr>world = [(''journal'', ''Init'', 0), (''journal'', ''[] [E] boom 7'', 3)],
            calls = [CInit ''journal'' ''{}'', CWriteMsg ''journal'' ''[] [E] boom 7'' 3],
            stdout = [], sprintfs = 2\<rparr>,
         dispatchers = [Receiving], closer = Taking\<rparr> = None"
    by (simp_all add: dispatcher_step_def Close_step_def recv_def)
  have alone: "run [Closer [], Closer [], Closer [''journal''], Closer [], Closer [''journal'']]
                 closing
       = Some \<lparr>logger = (logger closing)\<lparr>XLogger.msg := \<lparr>buf = [], cap = 1\<rparr>\<rparr>,
               machine =
                 \<lparr>world = [(''journal'', ''Init'', 0), (''journal'', ''[] [E] boom 7'', 3),
                           (''journal'', ''Flush'', 0), (''journal'', ''Destroy'', 0)],
                  calls = [CInit ''journal'' ''{}'', CWriteMsg ''journal'' ''[] [E] boom 7'' 3,
                           CFlush ''journal'', CDestroy ''journal''],
                  stdout = [], sprintfs = 2\<rparr>,
               dispatchers = [Receiving], closer = Returned\<rparr>"
    using Close_alone_example by simp
  from made added started logged start alone late stuck nostep show ?thesis by blast
qed

text \<open>
  The wait is for good, whatever the order of the range: with \<^verbatim>\<open>Close\<close> at its receive,
  every dispatcher at its own and the queue empty, no goroutine has a step.
\<close>

lemma Close_waits_forever:
  assumes "closer cfg = Taking" and "buf (XLogger.msg (logger cfg)) = []"
    and "list_all (\<lambda>d. d = Receiving) (dispatchers cfg)"
  shows "Close_step ks cfg = None \<and> dispatcher_step ks i cfg = None"
proof -
  have "dispatchers cfg ! i = Receiving" if "i < length (dispatchers cfg)"
    using assms(3) that by (simp add: list_all_length)
  with assms(1,2) show ?thesis
    by (simp add: Close_step_def dispatcher_step_def recv_def)
qed

subsection \<open>A failing write\<close>

text \<open>
  C4. Let a range over the adapters visit \<open>pre\<close>, then \<open>name\<close>, then \<open>post\<close>, and let the
  write to \<open>name\<close> fail with \<open>e\<close> after the writes to \<open>pre\<close>. In synchronous mode, if the
  writes to \<open>pre\<close> succeeded, \<^verbatim>\<open>writerMsg\<close> returns \<open>e\<close> and has written to \<open>pre\<close> and
  \<open>name\<close> only: no adapter of \<open>post\<close> is called. In the dispatcher, the round that
  receives the record prints the failure, goes on with \<open>post\<close>, and has written to every
  adapter of the range.
\<close>

theorem write_failure_asymmetry:
  assumes "range_order (outputs bl) (pre @ name # post)"
    and "outputs bl name = Some l"
  shows "(\<not> asynchronous bl
          \<and> writerMsg_range bl pre \<lparr>logMsg.level = loglevel, logMsg.msg = writerMsg_text env bl m\<rparr>
               (s\<lparr>sprintfs := sprintfs s + 1\<rparr>) = (None, s1)
          \<and> WriteMsg l (writerMsg_text env bl m) loglevel (world s1) = (Some e, w1)
          \<longrightarrow> (\<exists>s2. writerMsg env (pre @ name # post) bl s loglevel m
                        = Some (Some (AdapterError e), bl, s2)
                 \<and> calls s2 = calls s @ write_calls
                      \<lparr>logMsg.level = loglevel, logMsg.msg = writerMsg_text env bl m\<rparr> (pre @ [name])
                 \<and> stdout s2 = stdout s1 @ [''unable to WriteMsg to adapter: '' @ name @ '' '' @ e]))
       \<and> (recv (XLogger.msg bl) = Some (bm, c)
          \<and> startXLogger_range bl pre bm s = s1
          \<and> WriteMsg l (logMsg.msg bm) (logMsg.level bm) (world s1) = (Some e, w1)
          \<longrightarrow> (\<exists>s2. startXLogger_iter (pre @ name # post) bl s = Some (bl\<lparr>XLogger.msg := c\<rparr>, s2)
                 \<and> s2 = startXLogger_range bl post bm
                          (s1\<lparr>world := w1,
                              calls := calls s1 @ [CWriteMsg name (logMsg.msg bm) (logMsg.level bm)],
                              stdout := stdout s1 @ [''ERROR, unable to WriteMsg: '' @ e]\<rparr>)
                 \<and> calls s2 = calls s @ write_calls bm (pre @ name # post)))"
proof (intro conjI impI)
  let ?lm = "\<lparr>logMsg.level = loglevel, logMsg.msg = writerMsg_text env bl m\<rparr>"
  let ?s = "s\<lparr>sprintfs := sprintfs s + 1\<rparr>"
  assume a: "\<not> asynchronous bl \<and> writerMsg_range bl pre ?lm ?s = (None, s1)
          \<and> WriteMsg l (writerMsg_text env bl m) loglevel (world s1) = (Some e, w1)"
  from assms(1) have pre: "set pre \<subseteq> dom (outputs bl)" by (auto simp: range_order_def)
  from a have run: "writerMsg_range bl pre ?lm ?s = (None, s1)" by simp
  from a have "WriteMsg l (logMsg.msg ?lm) (logMsg.level ?lm) (world s1) = (Some e, w1)" by simp
  from writerMsg_range_fails_at [OF run assms(2) this, of post]
  have r: "writerMsg_range bl (pre @ name # post) ?lm ?s =
           (Some (AdapterError e),
            s1\<lparr>world := w1,
               calls := calls s1 @ [CWriteMsg name (logMsg.msg ?lm) (logMsg.level ?lm)],
               stdout := stdout s1 @ [''unable to WriteMsg to adapter: '' @ name @ '' '' @ e]\<rparr>)" .
  from writerMsg_range_ok_calls [OF run pre] have c: "calls s1 = calls s @ write_calls ?lm pre"
    by simp
  from a r c show "\<exists>s2. writerMsg env (pre @ name # post) bl s loglevel m
                        = Some (Some (AdapterError e), bl, s2)
                 \<and> calls s2 = calls s @ write_calls ?lm (pre @ [name])
                 \<and> stdout s2 = stdout s1 @ [''unable to WriteMsg to adapter: '' @ name @ '' '' @ e]"
    by (simp add: writerMsg_def)
next
  assume a: "recv (XLogger.msg bl) = Some (bm, c)
          \<and> startXLogger_range bl pre bm s = s1
          \<and> WriteMsg l (logMsg.msg bm) (logMsg.level bm) (world s1) = (Some e, w1)"
  from assms(1) have ks: "set (pre @ name # post) \<subseteq> dom (outputs bl)"
    by (simp add: range_order_def)
  from a have run: "startXLogger_range bl pre bm s = s1" by simp
  from a have w: "WriteMsg l (logMsg.msg bm) (logMsg.level bm) (world s1) = (Some e, w1)" by simp
  note r = startXLogger_range_fails_at [OF run assms(2) w, of post]
  note cs = startXLogger_range_calls [OF ks, of bm s]
  from a r cs show "\<exists>s2. startXLogger_iter (pre @ name # post) bl s = Some (bl\<lparr>XLogger.msg := c\<rparr>, s2)
                 \<and> s2 = startXLogger_range bl post bm
                          (s1\<lparr>world := w1,
                              calls := calls s1 @ [CWriteMsg name (logMsg.msg bm) (logMsg.level bm)],
                              stdout := stdout s1 @ [''ERROR, unable to WriteMsg: '' @ e]\<rparr>)
                 \<and> calls s2 = calls s @ write_calls bm (pre @ name # post)"
    by (simp add: startXLogger_iter_def)
qed

theorem write_failure_asymmetry_witness:
  "range_order (outputs fanout_logger) ([''a''] @ ''bad'' # [''z''])
   \<and> outputs fanout_logger ''bad'' = Some broken
   \<and> \<not> asynchronous fanout_logger
   \<and> (\<exists>s2. writerMsg sample_env ([''a''] @ ''bad'' # [''z'']) fanout_logger sample_sys 3 ''[E] x''
             = Some (Some (AdapterError ''disk full''), fanout_logger, s2)
           \<and> calls s2 = [CWriteMsg ''a'' ''[] [E] x'' 3, CWriteMsg ''bad'' ''[] [E] x'' 3]
           \<and> stdout s2 = [''unable to WriteMsg to adapter: bad disk full''])
   \<and> (\<exists>s2. startXLogger_iter ([''a''] @ ''bad'' # [''z'']) queued_logger sample_sys
             = Some (queued_logger\<lparr>XLogger.msg :=
                       \<lparr>buf = [\<lparr>logMsg.level = 4, logMsg.msg = ''[] [W] two''\<rparr>], cap = 2\<rparr>\<rparr>, s2)
           \<and> calls s2 = [CWriteMsg ''a'' ''[] [E] one'' 3, CWriteMsg ''bad'' ''[] [E] one'' 3,
                          CWriteMsg ''z'' ''[] [E] one'' 3]
           \<and> stdout s2 = [''ERROR, unable to WriteMsg: disk full''])"
proof -
  let ?lm = "\<lparr>logMsg.level = 3, logMsg.msg = writerMsg_text sample_env fanout_logger ''[E] x''\<rparr>"
  let ?s0 = "sample_sys\<lparr>sprintfs := sprintfs sample_sys + 1\<rparr>"
  let ?s1 = "?s0\<lparr>world := [(''a'', ''[] [E] x'', 3)], calls := [CWriteMsg ''a'' ''[] [E] x'' 3]\<rparr>"
  let ?bm = "\<lparr>logMsg.level = 3, logMsg.msg = ''[] [E] one''\<rparr>"
  let ?c = "\<lparr>buf = [\<lparr>logMsg.level = 4, logMsg.msg = ''[] [W] two''\<rparr>], cap = 2\<rparr>"
  let ?t1 = "sample_sys\<lparr>world := [(''a'', ''[] [E] one'', 3)],
                         calls := [CWriteMsg ''a'' ''[] [E] one'' 3]\<rparr>"
  have ro: "range_order (outputs fanout_logger) ([''a''] @ ''bad'' # [''z''])"
    by (auto simp: fanout_logger_def range_order_def)
  have roq: "range_order (outputs queued_logger) ([''a''] @ ''bad'' # [''z''])"
    by (auto simp: queued_logger_def range_order_def)
  have bad: "outputs fanout_logger ''bad'' = Some broken" "outputs queued_logger ''bad'' = Some broken"
    by (simp_all add: fanout_logger_def queued_logger_def)
  have sync: "\<not> asynchronous fanout_logger \<and> writerMsg_range fanout_logger [''a''] ?lm ?s0 = (None, ?s1)
      \<and> WriteMsg broken (writerMsg_text sample_env fanout_logger ''[E] x'') 3 (world ?s1)
          = (Some ''disk full'', world ?s1)"
    by (simp add: fanout_logger_def writerMsg_text_def sample_defs)
  have drain: "recv (XLogger.msg queued_logger) = Some (?bm, ?c)
      \<and> startXLogger_range queued_logger [''a''] ?bm sample_sys = ?t1
      \<and> WriteMsg broken (logMsg.msg ?bm) (logMsg.level ?bm) (world ?t1) = (Some ''disk full'', world ?t1)"
    by (simp add: queued_logger_def recv_def sample_defs)
  have p1: "\<exists>s2. writerMsg sample_env ([''a''] @ ''bad'' # [''z'']) fanout_logger sample_sys 3 ''[E] x''
             = Some (Some (AdapterError ''disk full''), fanout_logger, s2)
           \<and> calls s2 = [CWriteMsg ''a'' ''[] [E] x'' 3, CWriteMsg ''bad'' ''[] [E] x'' 3]
           \<and> stdout s2 = [''unable to WriteMsg to adapter: bad disk full'']"
    using write_failure_asymmetry [OF ro bad(1), THEN conjunct1, rule_format, OF sync]
    by (simp add: writerMsg_text_def fanout_logger_def sample_sys_def)
  have p2: "\<exists>s2. startXLogger_iter ([''a''] @ ''bad'' # [''z'']) queued_logger sample_sys
             = Some (queued_logger\<lparr>XLogger.msg := ?c\<rparr>, s2)
           \<and> calls s2 = [CWriteMsg ''a'' ''[] [E] one'' 3, CWriteMsg ''bad'' ''[] [E] one'' 3,
                          CWriteMsg ''z'' ''[] [E] one'' 3]
           \<and> stdout s2 = [''ERROR, unable to WriteMsg: disk full'']"
    using write_failure_asymmetry [OF roq bad(2), THEN conjunct2, rule_format, OF drain]
    by (simp add: queued_logger_def sample_defs Println_def)
  from ro bad(1) sync p1 p2 show ?thesis by blast
qed

subsection \<open>Adding adapters\<close>

text \<open>
  C5. When the name is registered and \<^verbatim>\<open>Init\<close> of the fresh instance fails with \<open>e\<close>,
  \<^verbatim>\<open>SetXLogger\<close> returns \<open>e\<close>, and the instance is in \<^verbatim>\<open>bl.outputs\<close> under that name
  all the same.
\<close>

theorem SetXLogger_init_fails:
  "adapters adaptername = Some log \<Longrightarrow> log (world s) = (lg, w1) \<Longrightarrow>
   Init lg config w1 = (Some e, w2) \<Longrightarrow>
   SetXLogger adapters bl s adaptername config =
     (Some (AdapterError e),
      bl\<lparr>outputs := (outputs bl)(adaptername \<mapsto> lg)\<rparr>,
      s\<lparr>world := w2, calls := calls s @ [CInit adaptername config],
        stdout := stdout s @ [''logs.XLogger.SetXLogger: '' @ e]\<rparr>)"
  by (simp add: SetXLogger_def Println_def)

theorem SetXLogger_init_fails_witness:
  "[''file'' \<mapsto> broken_factory] ''file'' = Some broken_factory
   \<and> broken_factory (world sample_sys) = (broken, world sample_sys)
   \<and> Init broken ''{}'' (world sample_sys) = (Some ''bad config'', world sample_sys)
   \<and> SetXLogger [''file'' \<mapsto> broken_factory] sample_logger sample_sys ''file'' ''{}'' =
       (Some (AdapterError ''bad config''),
        sample_logger\<lparr>outputs := (outputs sample_logger)(''file'' \<mapsto> broken)\<rparr>,
        sample_sys\<lparr>calls := [CInit ''file'' ''{}''],
                   stdout := [''logs.XLogger.SetXLogger: bad config'']\<rparr>)"
proof -
  have h1: "[''file'' \<mapsto> broken_factory] ''file'' = Some broken_factory" by simp
  have h2: "broken_factory (world sample_sys) = (broken, world sample_sys)"
    by (simp add: broken_factory_def)
  have h3: "Init broken ''{}'' (world sample_sys) = (Some ''bad config'', world sample_sys)"
    by (simp add: broken_def)
  note inst = SetXLogger_init_fails [where adapters = "[''file'' \<mapsto> broken_factory]"
      and adaptername = "''file''" and log = broken_factory and s = sample_sys and lg = broken
      and ?w1.0 = "world sample_sys" and config = "''{}''" and e = "''bad config''"
      and ?w2.0 = "world sample_sys" and bl = sample_logger]
  from inst [OF h1 h2 h3] h1 h2 h3 show ?thesis by (simp add: sample_sys_def)
qed


text \<open>
  C7. With a name that is not registered, \<^verbatim>\<open>SetXLogger\<close> returns the error
  \<^verbatim>\<open>unknown adaptername\<close> and leaves the logger, its adapters among the rest, and the
  machine as they were.
\<close>

theorem SetXLogger_unknown:
  "adapters adaptername = None \<Longrightarrow>
   SetXLogger adapters bl s adaptername config =
     (Some (Errorf ''logs: unknown adaptername %q (forgotten Register?)'' [adaptername]), bl, s)"
  by (simp add: SetXLogger_def)

theorem SetXLogger_unknown_witness:
  "[''console'' \<mapsto> console_factory] ''file'' = None
   \<and> SetXLogger [''console'' \<mapsto> console_factory] sample_logger sample_sys ''file'' ''{}'' =
       (Some (Errorf ''logs: unknown adaptername %q (forgotten Register?)'' [''file'']),
        sample_logger, sample_sys)"
proof -
  have h: "[''console'' \<mapsto> console_factory] ''file'' = None" by simp
  note inst = SetXLogger_unknown [where adapters = "[''console'' \<mapsto> console_factory]"
      and adaptername = "''file''" and bl = sample_logger and s = sample_sys
      and config = "''{}''"]
  from inst [OF h] h show ?thesis by simp
qed

subsection \<open>Registering constructors\<close>

text \<open>
  C8. \<^verbatim>\<open>Register\<close> panics exactly when the constructor is nil or the name is already
  registered; otherwise it stores the constructor under the name. After a successful
  registration a second one under the same name panics, whatever constructor it brings.
\<close>

theorem Register_panics:
  "((\<exists>p. Register adapters name log = Inl p) \<longleftrightarrow> (log = None \<or> adapters name \<noteq> None))
   \<and> (\<forall>f. log = Some f \<and> adapters name = None \<longrightarrow>
          Register adapters name log = Inr (adapters(name \<mapsto> f)))
   \<and> (\<forall>f g adapters1. Register adapters name (Some f) = Inr adapters1 \<longrightarrow>
          Register adapters1 name (Some g) =
            Inl (Panic (''logs: Register called twice for provider '' @ name)))"
  by (auto simp: Register_def split: option.splits)

theorem Register_panics_witness:
  "Register Map.empty ''console'' (Some console_factory) = Inr [''console'' \<mapsto> console_factory]
   \<and> Register [''console'' \<mapsto> console_factory] ''console'' (Some console_factory)
       = Inl (Panic ''logs: Register called twice for provider console'')
   \<and> Register [''console'' \<mapsto> console_factory] ''console'' (Some broken_factory)
       = Inl (Panic ''logs: Register called twice for provider console'')
   \<and> Register [''console'' \<mapsto> console_factory] ''file'' None
       = Inl (Panic ''logs: Register provide is nil'')"
proof -
  note first = Register_panics [where adapters = Map.empty and name = "''console''"
      and log = "Some console_factory"]
  have a: "Register Map.empty ''console'' (Some console_factory)
             = Inr [''console'' \<mapsto> console_factory]"
    using first by simp
  have b: "Register [''console'' \<mapsto> console_factory] ''console'' (Some g)
             = Inl (Panic ''logs: Register called twice for provider console'')" for g
    using first a by simp
  have c: "Register [''console'' \<mapsto> console_factory] ''file'' None
             = Inl (Panic ''logs: Register provide is nil'')"
    using Register_panics [where adapters = "[''console'' \<mapsto> console_factory]"
        and name = "''file''" and log = None]
    by (auto simp: Register_def)
  from a b c show ?thesis by blast
qed

subsection \<open>What the public methods return\<close>

text \<open>
  C9. The public methods return no value. When \<^verbatim>\<open>writerMsg\<close> returns an error \<open>e\<close> to
  one of them, the method returns the unit value with the logger and machine that
  \<^verbatim>\<open>writerMsg\<close> left: \<open>e\<close> is not part of the result.
\<close>

theorem write_error_dropped:
  "severity m \<le> level bl \<Longrightarrow>
   writerMsg env ks bl (s\<lparr>sprintfs := sprintfs s + 1\<rparr>) (severity m)
     (Sprintf env (''['' @ level_tag m @ ''] '' @ format) v) = Some (Some e, bl1, s1) \<Longrightarrow>
   invoke m env ks bl s format v = Some ((), bl1, s1)"
  by (simp add: invoke_unfold discard_def)

theorem write_error_dropped_witness:
  "severity ErrorM \<le> level fanout_logger
   \<and> writerMsg sample_env [''bad'', ''a'', ''z''] fanout_logger
        (sample_sys\<lparr>sprintfs := sprintfs sample_sys + 1\<rparr>) (severity ErrorM)
        (Sprintf sample_env (''['' @ level_tag ErrorM @ ''] '' @ ''boom %d'') [7])
       = Some (Some (AdapterError ''disk full''), fanout_logger,
               \<lparr>world = [], calls = [CWriteMsg ''bad'' ''[] [E] boom 7'' 3],
                stdout = [''unable to WriteMsg to adapter: bad disk full''], sprintfs = 2\<rparr>)
   \<and> invoke ErrorM sample_env [''bad'', ''a'', ''z''] fanout_logger sample_sys ''boom %d'' [7]
       = Some ((), fanout_logger,
               \<lparr>world = [], calls = [CWriteMsg ''bad'' ''[] [E] boom 7'' 3],
                stdout = [''unable to WriteMsg to adapter: bad disk full''], sprintfs = 2\<rparr>)"
proof -
  have h1: "severity ErrorM \<le> level fanout_logger"
    by (simp add: fanout_logger_def Level_defs)
  have h2: "writerMsg sample_env [''bad'', ''a'', ''z''] fanout_logger
        (sample_sys\<lparr>sprintfs := sprintfs sample_sys + 1\<rparr>) (severity ErrorM)
        (Sprintf sample_env (''['' @ level_tag ErrorM @ ''] '' @ ''boom %d'') [7])
       = Some (Some (AdapterError ''disk full''), fanout_logger,
               \<lparr>world = [], calls = [CWriteMsg ''bad'' ''[] [E] boom 7'' 3],
                stdout = [''unable to WriteMsg to adapter: bad disk full''], sprintfs = 2\<rparr>)"
    by (simp add: writerMsg_def writerMsg_text_def fanout_logger_def sample_defs Println_def
          Level_defs Itoa_def)
  from write_error_dropped [OF h1 h2] h1 h2 show ?thesis by simp
qed

subsection \<open>The caller depth\<close>

text \<open>
  C10. After \<^verbatim>\<open>SetLogFuncCallDepth(d)\<close>, \<^verbatim>\<open>GetLogFuncCallDepth()\<close> returns \<open>d\<close>, and
  every other field of the logger is as before.
\<close>

theorem depth_set_get:
  "GetLogFuncCallDepth (SetLogFuncCallDepth d bl) = d
   \<and> SetLogFuncCallDepth d bl = bl\<lparr>loggerFuncCallDepth := d\<rparr>
   \<and> level (SetLogFuncCallDepth d bl) = level bl
   \<and> enableFuncCallDepth (SetLogFuncCallDepth d bl) = enableFuncCallDepth bl
   \<and> asynchronous (SetLogFuncCallDepth d bl) = asynchronous bl
   \<and> XLogger.msg (SetLogFuncCallDepth d bl) = XLogger.msg bl
   \<and> outputs (SetLogFuncCallDepth d bl) = outputs bl
   \<and> extra (SetLogFuncCallDepth d bl) = extra bl"
  by (simp add: GetLogFuncCallDepth_def SetLogFuncCallDepth_def)

end
